theory Spec2Isabelle
  imports Complex_Main "HOL-Library.Multiset"
begin

section \<open>JavaScript values\<close>

text \<open>
  A JavaScript Number: \<open>Num q\<close> is the finite binary64 value \<open>q\<close>. The sign of zero is
  not represented.
\<close>

datatype jsnum = NaN | Num rat | PosInfinity | NegInfinity

text \<open>
  An instant is the millisecond count read by \<open>new Date()\<close>. The server keeps it as the
  ISO-8601 text \<open>toISOString()\<close>, which \<open>new Date(text)\<close> turns back into the same
  instant, so the text itself is not represented.
\<close>

type_synonym instant = nat

text \<open>
  The values a JSON request body can carry, and \<open>undefined\<close> for a missing property.
  An object is the list of its own properties, with distinct keys. \<open>JTime t\<close> is the
  ISO-8601 string of the instant \<open>t\<close>; it occurs in response bodies only.
\<close>

datatype jsval =
    JUndefined
  | JNull
  | JBool bool
  | JNum jsnum
  | JStr string
  | JTime instant
  | JArr "jsval list"
  | JObj "(string \<times> jsval) list"

text \<open>
  Whether \<open>ToString\<close>, as a template literal applies it, throws a TypeError. A value
  parsed from JSON holds no function: an object with an own property \<open>toString\<close> has
  no callable \<open>toString\<close> and its \<open>valueOf\<close> yields no primitive; an array joins the
  texts of its elements.
\<close>

fun toStringThrows :: "jsval \<Rightarrow> bool" where
  "toStringThrows (JArr vs) = list_ex toStringThrows vs"
| "toStringThrows (JObj ps) = (map_of ps ''toString'' \<noteq> None)"
| "toStringThrows v = False"

datatype js_error = TypeError | FsError | MongoError

section \<open>String primitives\<close>

text \<open>
  Strings are lists of one-byte characters. \<open>isWhiteSpace\<close> holds the WhiteSpace and
  LineTerminator code points of ECMAScript below 256: TAB, LF, VT, FF, CR, SP, NBSP.
\<close>

definition isWhiteSpace :: "char \<Rightarrow> bool" where
  "isWhiteSpace c =
     (c \<in> set [CHR 0x09, CHR 0x0A, CHR 0x0B, CHR 0x0C, CHR 0x0D, CHR 0x20, CHR 0xA0])"

text \<open>\<^verbatim>\<open>String.prototype.trim\<close>.\<close>

definition js_trim :: "string \<Rightarrow> string" where
  "js_trim s = rev (dropWhile isWhiteSpace (rev (dropWhile isWhiteSpace s)))"

text \<open>\<^verbatim>\<open>s.includes(c)\<close> for a one-character search string.\<close>

definition js_includes :: "string \<Rightarrow> char \<Rightarrow> bool" where
  "js_includes s c = (c \<in> set s)"

text \<open>
  \<^verbatim>\<open>s.split(sep)\<close> for a one-character separator: the result always has at least one
  element, and the empty string splits into one empty token.
\<close>

fun js_split :: "char \<Rightarrow> string \<Rightarrow> string list" where
  "js_split sep [] = [[]]"
| "js_split sep (c # cs) =
     (if c = sep then [] # js_split sep cs
      else (case js_split sep cs of [] \<Rightarrow> [[c]] | t # ts \<Rightarrow> (c # t) # ts))"

section \<open>Number parsing\<close>

definition digitValue :: "char \<Rightarrow> nat option" where
  "digitValue c =
     (let n = (of_char c :: nat) in
      if 48 \<le> n \<and> n \<le> 57 then Some (n - 48)
      else if 97 \<le> n \<and> n \<le> 122 then Some (n - 87)
      else if 65 \<le> n \<and> n \<le> 90 then Some (n - 55)
      else None)"

definition isRadixDigit :: "nat \<Rightarrow> char \<Rightarrow> bool" where
  "isRadixDigit R c = (case digitValue c of None \<Rightarrow> False | Some d \<Rightarrow> d < R)"

definition digitsValue :: "nat \<Rightarrow> string \<Rightarrow> nat" where
  "digitsValue R ds =
     foldl (\<lambda>a c. a * R + (case digitValue c of None \<Rightarrow> 0 | Some d \<Rightarrow> d)) 0 ds"

text \<open>
  The Number nearest to the fraction \<open>n / d\<close> (\<open>d\<close> positive), ties to the even
  significand: 53 bits at the exponent of \<open>n / d\<close>, exponents below \<open>- 1022\<close> held at
  the subnormal spacing \<open>2 ^ - 1074\<close>, and an infinity from \<open>2 ^ 1024\<close> on.
\<close>

fun bitLength :: "nat \<Rightarrow> nat" where
  "bitLength n = (if n = 0 then 0 else Suc (bitLength (n div 2)))"

declare bitLength.simps [simp del]

definition pow2 :: "int \<Rightarrow> rat" where
  "pow2 e = (if 0 \<le> e then 2 ^ nat e else 1 / 2 ^ nat (- e))"

definition atLeastPow2 :: "nat \<Rightarrow> nat \<Rightarrow> int \<Rightarrow> bool" where
  "atLeastPow2 a d k = (if 0 \<le> k then d * 2 ^ nat k \<le> a else d \<le> a * 2 ^ nat (- k))"

definition floorLog2 :: "nat \<Rightarrow> nat \<Rightarrow> int" where
  "floorLog2 a d =
     (if atLeastPow2 a d (int (bitLength a) - int (bitLength d))
      then int (bitLength a) - int (bitLength d)
      else int (bitLength a) - int (bitLength d) - 1)"

definition ulpExponent :: "nat \<Rightarrow> nat \<Rightarrow> int" where
  "ulpExponent a d = max (floorLog2 a d) (- 1022) - 52"

definition roundHalfEven :: "nat \<Rightarrow> nat \<Rightarrow> nat" where
  "roundHalfEven N D =
     (if 2 * (N mod D) < D then N div D
      else if D < 2 * (N mod D) then N div D + 1
      else if even (N div D) then N div D else N div D + 1)"

definition significand :: "nat \<Rightarrow> nat \<Rightarrow> int \<Rightarrow> nat" where
  "significand a d t =
     (if 0 \<le> t then roundHalfEven a (d * 2 ^ nat t) else roundHalfEven (a * 2 ^ nat (- t)) d)"

definition scaled :: "bool \<Rightarrow> nat \<Rightarrow> int \<Rightarrow> jsnum" where
  "scaled neg m t =
     (if 0 \<le> t \<and> 2 ^ 1024 \<le> m * 2 ^ nat t
      then (if neg then NegInfinity else PosInfinity)
      else Num ((if neg then - 1 else 1) * of_nat m * pow2 t))"

definition binary64 :: "int \<Rightarrow> nat \<Rightarrow> jsnum" where
  "binary64 n d =
     (if n = 0 then Num 0
      else scaled (n < 0)
             (significand (nat \<bar>n\<bar>) d (ulpExponent (nat \<bar>n\<bar>) d))
             (ulpExponent (nat \<bar>n\<bar>) d))"

text \<open>
  \<^verbatim>\<open>parseInt(string)\<close> with no radix argument. \<open>parseIntMath\<close> is the mathematical
  integer of the accepted digits: leading white space is dropped, one sign is read, a
  \<open>0x\<close> or \<open>0X\<close> prefix selects radix 16, and the longest run of digits is taken;
  \<open>None\<close> is NaN. \<open>parseInt\<close> is the Number for it.
\<close>

definition parseIntMath :: "string \<Rightarrow> int option" where
  "parseIntMath inputString =
     (let S = dropWhile isWhiteSpace inputString;
          sign = (if S \<noteq> [] \<and> hd S = CHR ''-'' then - 1 else 1);
          S1 = (if S \<noteq> [] \<and> (hd S = CHR ''+'' \<or> hd S = CHR ''-'') then tl S else S);
          hex = (take 2 S1 = ''0x'' \<or> take 2 S1 = ''0X'');
          R = (if hex then 16 else 10);
          S2 = (if hex then drop 2 S1 else S1);
          Z = takeWhile (isRadixDigit R) S2
      in if Z = [] then None else Some (sign * int (digitsValue R Z)))"

definition parseInt :: "string \<Rightarrow> jsnum" where
  "parseInt inputString =
     (case parseIntMath inputString of None \<Rightarrow> NaN | Some n \<Rightarrow> binary64 n 1)"

text \<open>
  \<^verbatim>\<open>parseFloat(string)\<close>: the longest prefix of the trimmed string that is a
  StrDecimalLiteral (\<open>Infinity\<close>, or digits with an optional fraction and an optional
  exponent, after an optional sign), as the Number nearest to its decimal value; NaN when
  there is none.
\<close>

definition exponentPart :: "string \<Rightarrow> int" where
  "exponentPart r =
     (if r \<noteq> [] \<and> (hd r = CHR ''e'' \<or> hd r = CHR ''E'') then
        (let t = tl r;
             neg = (t \<noteq> [] \<and> hd t = CHR ''-'');
             u = (if t \<noteq> [] \<and> (hd t = CHR ''+'' \<or> hd t = CHR ''-'') then tl t else t);
             d = takeWhile (isRadixDigit 10) u
         in if d = [] then 0
            else if neg then - int (digitsValue 10 d) else int (digitsValue 10 d))
      else 0)"

definition decimalNumber :: "bool \<Rightarrow> nat \<Rightarrow> int \<Rightarrow> jsnum" where
  "decimalNumber neg m e =
     (if 0 \<le> e then binary64 ((if neg then - 1 else 1) * int (m * 10 ^ nat e)) 1
      else binary64 ((if neg then - 1 else 1) * int m) (10 ^ nat (- e)))"

definition parseFloat :: "string \<Rightarrow> jsnum" where
  "parseFloat inputString =
     (let S = dropWhile isWhiteSpace inputString;
          neg = (S \<noteq> [] \<and> hd S = CHR ''-'');
          U = (if S \<noteq> [] \<and> (hd S = CHR ''+'' \<or> hd S = CHR ''-'') then tl S else S)
      in if take 8 U = ''Infinity'' then (if neg then NegInfinity else PosInfinity)
         else
           (let ip = takeWhile (isRadixDigit 10) U;
                r1 = dropWhile (isRadixDigit 10) U;
                dot = (r1 \<noteq> [] \<and> hd r1 = CHR ''.'');
                fp = (if dot then takeWhile (isRadixDigit 10) (tl r1) else []);
                r2 = (if dot then dropWhile (isRadixDigit 10) (tl r1) else r1)
            in if ip = [] \<and> fp = [] then NaN
               else decimalNumber neg (digitsValue 10 (ip @ fp))
                      (exponentPart r2 - int (length fp))))"

section \<open>The in-memory reading\<close>

text \<open>
  The type of the object \<^verbatim>\<open>sensorData\<close> of the server. A sensor property is \<open>None\<close> while it
  holds \<^verbatim>\<open>null\<close>. \<open>raw\<close> receives \<^verbatim>\<open>req.body.data\<close> as it comes, and
  \<open>requestedServoPosition\<close> receives \<^verbatim>\<open>req.body.position\<close> as it comes; the latter
  is \<open>JUndefined\<close> until the first servo request and after each delivery.
\<close>

record sensorState =
  timestamp :: instant
  moisture :: "jsnum option"
  moistureStatus :: "string option"
  light :: "jsnum option"
  lightStatus :: "string option"
  water :: "jsnum option"
  waterStatus :: "string option"
  temperature :: "jsnum option"
  humidity :: "jsnum option"
  servo :: "jsnum option"
  raw :: jsval
  requestedServoPosition :: jsval

definition initialSensorData :: "instant \<Rightarrow> sensorState" where
  "initialSensorData t0 =
     \<lparr>timestamp = t0, moisture = None, moistureStatus = None, light = None,
      lightStatus = None, water = None, waterStatus = None, temperature = None,
      humidity = None, servo = None, raw = JStr [], requestedServoPosition = JUndefined\<rparr>"

section \<open>The line parser of \<^verbatim>\<open>POST /data\<close>\<close>

text \<open>The nine assignments of \<^verbatim>\<open>null\<close> that precede the loop.\<close>

definition resetSensorValues :: "sensorState \<Rightarrow> sensorState" where
  "resetSensorValues sd =
     sd\<lparr>moisture := None, moistureStatus := None, light := None, lightStatus := None,
        water := None, waterStatus := None, temperature := None, humidity := None,
        servo := None\<rparr>"

text \<open>
  \<^verbatim>\<open>const [key, value] = part.split(":")\<close>. The part contains a colon where this is
  used, so both elements exist; a missing second element would be \<^verbatim>\<open>undefined\<close>,
  which the number parsers read as the text \<open>undefined\<close>.
\<close>

definition partKey :: "string \<Rightarrow> string" where
  "partKey part = hd (js_split CHR '':'' part)"

definition partValue :: "string \<Rightarrow> string" where
  "partValue part =
     (case tl (js_split CHR '':'' part) of [] \<Rightarrow> ''undefined'' | v # _ \<Rightarrow> v)"

text \<open>
  The test \<^verbatim>\<open>i + 1 < parts.length && !parts[i + 1].includes(":")\<close> that guards each
  status assignment.
\<close>

definition statusFollows :: "string list \<Rightarrow> nat \<Rightarrow> bool" where
  "statusFollows parts i = (i + 1 < length parts \<and> \<not> js_includes (parts ! (i + 1)) CHR '':'')"

text \<open>One iteration of the loop, at index \<open>i < length parts\<close>.\<close>

definition parseStep :: "string list \<Rightarrow> nat \<Rightarrow> sensorState \<Rightarrow> sensorState" where
  "parseStep parts i sd =
     (let part = js_trim (parts ! i) in
      if js_includes part CHR '':'' then
        (let key = partKey part; val = partValue part in
         if key = ''Moisture'' then
           (let sd1 = sd\<lparr>moisture := Some (parseInt val)\<rparr> in
            if statusFollows parts i
            then sd1\<lparr>moistureStatus := Some (js_trim (parts ! (i + 1)))\<rparr> else sd1)
         else if key = ''Light'' then
           (let sd1 = sd\<lparr>light := Some (parseInt val)\<rparr> in
            if statusFollows parts i
            then sd1\<lparr>lightStatus := Some (js_trim (parts ! (i + 1)))\<rparr> else sd1)
         else if key = ''Water'' then
           (let sd1 = sd\<lparr>water := Some (parseInt val)\<rparr> in
            if statusFollows parts i
            then sd1\<lparr>waterStatus := Some (js_trim (parts ! (i + 1)))\<rparr> else sd1)
         else if key = ''Temp'' then sd\<lparr>temperature := Some (parseFloat val)\<rparr>
         else if key = ''Humid'' then sd\<lparr>humidity := Some (parseFloat val)\<rparr>
         else if key = ''Servo'' then sd\<lparr>servo := Some (parseInt val)\<rparr>
         else sd)
      else sd)"

text \<open>\<^verbatim>\<open>for (let i = 0; i < parts.length; i++)\<close>.\<close>

definition parseLoop :: "string list \<Rightarrow> sensorState \<Rightarrow> sensorState" where
  "parseLoop parts sd = fold (parseStep parts) [0..<length parts] sd"

text \<open>
  The body of the inner \<^verbatim>\<open>try\<close>. \<^verbatim>\<open>rawData.split(",")\<close> is its first statement
  and throws a TypeError unless \<open>rawData\<close> is a string, before any property is reset.
  On a string nothing in the block can throw.
\<close>

definition parseSensorData :: "jsval \<Rightarrow> sensorState \<Rightarrow> js_error + sensorState" where
  "parseSensorData rawData sd =
     (case rawData of
        JStr s \<Rightarrow> Inr (parseLoop (js_split CHR '','' s) (resetSensorValues sd))
      | _ \<Rightarrow> Inl TypeError)"

section \<open>Responses\<close>

text \<open>
  A response is a status code and a body. \<open>Json\<close> is an object body, by its properties in
  order. \<open>ErrorStatus e\<close> is \<^verbatim>\<open>{status: "error", message: e.message}\<close> and
  \<open>ErrorOnly e\<close> is \<^verbatim>\<open>{error: e.message}\<close>; the text of the message is not represented.
\<close>

text \<open>
  What the String path \<open>raw\<close> of a stored document holds. \<open>RawTextOf v\<close> is the text
  JavaScript writes for the number or boolean \<open>v\<close>; the text itself is not represented.
\<close>

datatype storedRaw = RawAbsent | RawNull | RawString string | RawTextOf jsval

record SensorDoc =
  doc_timestamp :: instant
  doc_moisture :: "jsnum option"
  doc_moistureStatus :: "string option"
  doc_light :: "jsnum option"
  doc_lightStatus :: "string option"
  doc_water :: "jsnum option"
  doc_waterStatus :: "string option"
  doc_temperature :: "jsnum option"
  doc_humidity :: "jsnum option"
  doc_servo :: "jsnum option"
  doc_raw :: storedRaw

datatype logData = NoData | RawData jsval | PositionData jsval | ErrorData js_error

record LogDoc =
  log_timestamp :: instant
  log_type :: string
  log_message :: string
  log_data :: logData

datatype body =
    Json "(string \<times> jsval) list"
  | ErrorStatus js_error
  | ErrorOnly js_error
  | Readings "SensorDoc list"
  | Logs "LogDoc list"

datatype response = Response (status: nat) (content: body)

text \<open>
  \<^verbatim>\<open>JSON.stringify\<close> on the properties of an object: a property whose value is
  \<^verbatim>\<open>undefined\<close> is left out, and a number that is not finite is written \<^verbatim>\<open>null\<close>.
  Nothing is rewritten inside an array or an object: a value taken from a request body
  holds neither inside.
\<close>

definition jsonValue :: "jsval \<Rightarrow> jsval" where
  "jsonValue v =
     (case v of
        JNum NaN \<Rightarrow> JNull
      | JNum PosInfinity \<Rightarrow> JNull
      | JNum NegInfinity \<Rightarrow> JNull
      | _ \<Rightarrow> v)"

definition json :: "(string \<times> jsval) list \<Rightarrow> body" where
  "json props =
     Json (map (\<lambda>kv. (fst kv, jsonValue (snd kv))) (filter (\<lambda>kv. snd kv \<noteq> JUndefined) props))"

definition numberOrNull :: "jsnum option \<Rightarrow> jsval" where
  "numberOrNull n = (case n of None \<Rightarrow> JNull | Some x \<Rightarrow> JNum x)"

definition stringOrNull :: "string option \<Rightarrow> jsval" where
  "stringOrNull n = (case n of None \<Rightarrow> JNull | Some x \<Rightarrow> JStr x)"

section \<open>The server and its durable sinks\<close>

text \<open>
  The state the handlers touch: the object in memory, the two log files (one entry per
  appended line: the instant and the value interpolated after it), the two MongoDB
  collections in insertion order, and the first argument of every \<^verbatim>\<open>console.error\<close>
  call. The writes one request starts run concurrently in the source; here they land in
  program order.
\<close>

record server =
  sensorData :: sensorState
  sensorLogFile :: "(instant \<times> jsval) list"
  servoLogFile :: "(instant \<times> jsval) list"
  sensorCollection :: "SensorDoc list"
  logCollection :: "LogDoc list"
  consoleErrors :: "string list"

definition initialServer :: "instant \<Rightarrow> server" where
  "initialServer t0 =
     \<lparr>sensorData = initialSensorData t0, sensorLogFile = [], servoLogFile = [],
      sensorCollection = [], logCollection = [], consoleErrors = []\<rparr>"

definition consoleError :: "string \<Rightarrow> server \<Rightarrow> server" where
  "consoleError line srv = srv\<lparr>consoleErrors := consoleErrors srv @ [line]\<rparr>"

text \<open>
  What the outside world does during one request: whether \<^verbatim>\<open>fs.appendFile\<close> succeeds,
  whether the database takes a document the SensorData schema accepts, whether a save
  into the Log collection succeeds, and whether a \<^verbatim>\<open>find\<close> query is answered.
\<close>

record sinks =
  fileOk :: bool
  sensorSaveOk :: bool
  logSaveOk :: bool
  queryOk :: bool

definition allOk :: sinks where
  "allOk = \<lparr>fileOk = True, sensorSaveOk = True, logSaveOk = True, queryOk = True\<rparr>"

text \<open>
  \<^verbatim>\<open>saveLog\<close> catches its own failure, writes it to the console and returns
  \<^verbatim>\<open>false\<close>; it never rejects, so the \<^verbatim>\<open>.catch\<close> handlers its callers attach
  never run.
\<close>

definition newLog :: "instant \<Rightarrow> string \<Rightarrow> string \<Rightarrow> logData \<Rightarrow> LogDoc" where
  "newLog now type message payload =
     \<lparr>log_timestamp = now, log_type = type, log_message = message, log_data = payload\<rparr>"

definition saveLog :: "sinks \<Rightarrow> instant \<Rightarrow> string \<Rightarrow> string \<Rightarrow> logData \<Rightarrow> server \<Rightarrow> server" where
  "saveLog env now type message payload srv =
     (if logSaveOk env
      then srv\<lparr>logCollection := logCollection srv @ [newLog now type message payload]\<rparr>
      else consoleError ''Error saving log to MongoDB:'' srv)"

text \<open>The interpolated position of the servo message is kept in the payload only.\<close>

definition saveServoLog :: "sinks \<Rightarrow> instant \<Rightarrow> jsval \<Rightarrow> server \<Rightarrow> server" where
  "saveServoLog env now position srv =
     saveLog env now ''servo'' ''Servo position set to '' (PositionData position) srv"

definition saveSystemLog :: "sinks \<Rightarrow> instant \<Rightarrow> string \<Rightarrow> server \<Rightarrow> server" where
  "saveSystemLog env now message srv = saveLog env now ''system'' message NoData srv"

definition saveErrorLog :: "sinks \<Rightarrow> instant \<Rightarrow> string \<Rightarrow> js_error \<Rightarrow> server \<Rightarrow> server" where
  "saveErrorLog env now message error srv =
     saveLog env now ''error'' message (ErrorData error) srv"

text \<open>
  The casts of the SensorData schema (Mongoose). A Number path keeps \<^verbatim>\<open>null\<close> and
  every number but NaN, which it refuses. The String path \<open>raw\<close> keeps a string,
  \<^verbatim>\<open>null\<close> and \<^verbatim>\<open>undefined\<close>, writes a number or a boolean as its text, takes
  the \<open>_id\<close> of an object whose \<open>_id\<close> is a non-empty string, and refuses every other
  object and every array. A document with a refused path is not saved.
\<close>

definition castString :: "jsval \<Rightarrow> storedRaw option" where
  "castString v =
     (case v of
        JUndefined \<Rightarrow> Some RawAbsent
      | JNull \<Rightarrow> Some RawNull
      | JStr t \<Rightarrow> Some (RawString t)
      | JArr vs \<Rightarrow> None
      | JObj ps \<Rightarrow>
          (case map_of ps ''_id'' of
             Some (JStr i) \<Rightarrow> if i = [] then None else Some (RawString i)
           | _ \<Rightarrow> None)
      | _ \<Rightarrow> Some (RawTextOf v))"

definition schemaAccepts :: "sensorState \<Rightarrow> bool" where
  "schemaAccepts d =
     (list_all (\<lambda>n. n \<noteq> Some NaN)
        [moisture d, light d, water d, temperature d, humidity d, servo d] \<and>
      castString (raw d) \<noteq> None)"

text \<open>
  \<^verbatim>\<open>saveSensorData\<close>: the document copies the eleven properties one by one, each
  through the cast of its path; the sensor log entry is written only after the document
  was saved. A failure is caught inside, written to the console, and the function
  returns \<^verbatim>\<open>false\<close>.
\<close>

definition sensorDoc :: "sensorState \<Rightarrow> SensorDoc" where
  "sensorDoc d =
     \<lparr>doc_timestamp = timestamp d, doc_moisture = moisture d,
      doc_moistureStatus = moistureStatus d, doc_light = light d,
      doc_lightStatus = lightStatus d, doc_water = water d,
      doc_waterStatus = waterStatus d, doc_temperature = temperature d,
      doc_humidity = humidity d, doc_servo = servo d,
      doc_raw = (case castString (raw d) of None \<Rightarrow> RawAbsent | Some r \<Rightarrow> r)\<rparr>"

definition saveSensorData :: "sinks \<Rightarrow> instant \<Rightarrow> sensorState \<Rightarrow> server \<Rightarrow> server" where
  "saveSensorData env now d srv =
     (if sensorSaveOk env \<and> schemaAccepts d
      then saveLog env now ''sensor'' ''Sensor data received'' (RawData (raw d))
             (srv\<lparr>sensorCollection := sensorCollection srv @ [sensorDoc d]\<rparr>)
      else consoleError ''Error saving to MongoDB:'' srv)"

section \<open>The handlers\<close>

text \<open>
  A request body is \<open>None\<close> when \<^verbatim>\<open>req.body\<close> is undefined, so that reading a property
  of it throws; otherwise it is \<open>Some v\<close> with \<open>v\<close> the property the handler reads
  (\<open>JUndefined\<close> when the property is missing). One instant \<open>now\<close> stands for every
  \<^verbatim>\<open>new Date()\<close> of a request.

  \<^verbatim>\<open>POST /data\<close>. The first statements read the property and write it into a template
  literal, before anything is stored; when either throws, the outer \<^verbatim>\<open>catch\<close> answers.
\<close>

definition dataRequestFailed :: "sinks \<Rightarrow> instant \<Rightarrow> server \<Rightarrow> response \<times> server" where
  "dataRequestFailed env now srv =
     (Response 500 (ErrorStatus TypeError),
      saveErrorLog env now ''Error processing data request'' TypeError
        (consoleError ''Error processing request:'' srv))"

definition postData :: "sinks \<Rightarrow> instant \<Rightarrow> jsval option \<Rightarrow> server \<Rightarrow> response \<times> server" where
  "postData env now reqBody srv =
     (case reqBody of
        None \<Rightarrow> dataRequestFailed env now srv
      | Some rawData \<Rightarrow>
          if toStringThrows rawData then dataRequestFailed env now srv
          else
            (let sd0 = (sensorData srv)\<lparr>raw := rawData, timestamp := now\<rparr>;
                 srv1 = (case parseSensorData rawData sd0 of
                           Inr sd1 \<Rightarrow> srv\<lparr>sensorData := sd1\<rparr>
                         | Inl error \<Rightarrow>
                             saveErrorLog env now ''Error parsing sensor data'' error
                               (consoleError ''Error parsing sensor data:''
                                  (srv\<lparr>sensorData := sd0\<rparr>)));
                 srv2 = (if fileOk env
                         then srv1\<lparr>sensorLogFile := sensorLogFile srv1 @
                                [(timestamp (sensorData srv1), rawData)]\<rparr>
                         else saveErrorLog env now ''Error writing to file log'' FsError
                                (consoleError ''Error writing to log file:'' srv1));
                 srv3 = saveSensorData env now (sensorData srv2) srv2
             in (Response 200
                   (json [(''status'', JStr ''success''), (''message'', JStr ''Data received'')]),
                 srv3)))"

text \<open>\<^verbatim>\<open>GET /data\<close>: \<^verbatim>\<open>res.json(sensorData)\<close>, the whole object.\<close>

definition getData :: "server \<Rightarrow> response \<times> server" where
  "getData srv =
     (let d = sensorData srv in
      (Response 200
         (json [(''timestamp'', JTime (timestamp d)),
                (''moisture'', numberOrNull (moisture d)),
                (''moistureStatus'', stringOrNull (moistureStatus d)),
                (''light'', numberOrNull (light d)),
                (''lightStatus'', stringOrNull (lightStatus d)),
                (''water'', numberOrNull (water d)),
                (''waterStatus'', stringOrNull (waterStatus d)),
                (''temperature'', numberOrNull (temperature d)),
                (''humidity'', numberOrNull (humidity d)),
                (''servo'', numberOrNull (servo d)),
                (''raw'', raw d),
                (''requestedServoPosition'', requestedServoPosition d)]),
       srv))"

text \<open>
  \<^verbatim>\<open>POST /servo\<close> of the Express server: the position is stored as it comes. As in
  \<^verbatim>\<open>POST /data\<close>, the property is read and written into a template literal first.
\<close>

definition servoRequestFailed :: "sinks \<Rightarrow> instant \<Rightarrow> server \<Rightarrow> response \<times> server" where
  "servoRequestFailed env now srv =
     (Response 500 (ErrorStatus TypeError),
      saveErrorLog env now ''Error processing servo request'' TypeError
        (consoleError ''Error processing servo request:'' srv))"

definition postServo :: "sinks \<Rightarrow> instant \<Rightarrow> jsval option \<Rightarrow> server \<Rightarrow> response \<times> server" where
  "postServo env now reqBody srv =
     (case reqBody of
        None \<Rightarrow> servoRequestFailed env now srv
      | Some position \<Rightarrow>
          if toStringThrows position then servoRequestFailed env now srv
          else
            (let srv1 = srv\<lparr>sensorData :=
                          (sensorData srv)\<lparr>requestedServoPosition := position\<rparr>\<rparr>;
                 srv2 = (if fileOk env
                         then srv1\<lparr>servoLogFile := servoLogFile srv1 @ [(now, position)]\<rparr>
                         else saveErrorLog env now ''Error writing to servo log file'' FsError
                                (consoleError ''Error writing to servo log file:'' srv1));
                 srv3 = saveServoLog env now position srv2
             in (Response 200
                   (json [(''status'', JStr ''success''),
                          (''message'', JStr ''Servo position request received''),
                          (''position'', position)]),
                 srv3)))"

text \<open>\<^verbatim>\<open>GET /servo-check\<close>.\<close>

definition servoCheck :: "server \<Rightarrow> response \<times> server" where
  "servoCheck srv =
     (if requestedServoPosition (sensorData srv) \<noteq> JUndefined then
        (let position = requestedServoPosition (sensorData srv);
             srv1 = srv\<lparr>sensorData := (sensorData srv)\<lparr>requestedServoPosition := JUndefined\<rparr>\<rparr>
         in (Response 200 (json [(''status'', JStr ''success''), (''position'', position)]), srv1))
      else (Response 200 (json [(''status'', JStr ''no_request'')]), srv))"

text \<open>
  \<^verbatim>\<open>POST\<close> of \<^verbatim>\<open>app/api/servo/route.ts\<close>. The body is \<open>None\<close> when
  \<^verbatim>\<open>request.json()\<close> or the destructuring throws. This route keeps no state; its
  console output is not represented.
\<close>

definition jsLess :: "jsnum \<Rightarrow> jsnum \<Rightarrow> bool" where
  "jsLess a b =
     (case (a, b) of
        (Num x, Num y) \<Rightarrow> x < y
      | (NegInfinity, Num y) \<Rightarrow> True
      | (NegInfinity, PosInfinity) \<Rightarrow> True
      | (Num x, PosInfinity) \<Rightarrow> True
      | _ \<Rightarrow> False)"

definition invalidPosition :: "jsval \<Rightarrow> bool" where
  "invalidPosition position =
     (case position of
        JNum n \<Rightarrow> jsLess n (Num 0) \<or> jsLess (Num 180) n
      | _ \<Rightarrow> True)"

definition servoRoutePOST :: "jsval option \<Rightarrow> response" where
  "servoRoutePOST reqBody =
     (case reqBody of
        None \<Rightarrow> Response 500 (json [(''error'', JStr ''Failed to process request'')])
      | Some position \<Rightarrow>
          if invalidPosition position
          then Response 400
                 (json [(''error'', JStr ''Invalid position. Must be a number between 0 and 180.'')])
          else Response 200 (json [(''success'', JBool True), (''position'', position)]))"

section \<open>History and log queries\<close>

text \<open>
  \<^verbatim>\<open>Model.find(query).sort({timestamp: -1}).skip(skip).limit(limit)\<close> on a collection
  already filtered by the query. MongoDB leaves the order of documents with equal
  timestamps open; here they come out in reverse insertion order. A limit of 0 means no
  limit, a negative limit is taken by its absolute value, a negative skip is refused.
\<close>

definition newestFirst :: "('a \<Rightarrow> instant) \<Rightarrow> 'a list \<Rightarrow> 'a list" where
  "newestFirst ts docs = rev (sort_key ts docs)"

definition mongoLimit :: "int \<Rightarrow> 'a list \<Rightarrow> 'a list" where
  "mongoLimit n xs = (if n = 0 then xs else take (nat \<bar>n\<bar>) xs)"

definition findSorted ::
  "sinks \<Rightarrow> ('a \<Rightarrow> instant) \<Rightarrow> int \<Rightarrow> int \<Rightarrow> 'a list \<Rightarrow> js_error + 'a list" where
  "findSorted env ts limit skip docs =
     (if queryOk env \<and> 0 \<le> skip
      then Inr (mongoLimit limit (drop (nat skip) (newestFirst ts docs)))
      else Inl MongoError)"

text \<open>
  \<^verbatim>\<open>getHistoricalData(limit = 100, skip = 0)\<close>; an argument is \<open>None\<close> when it is not
  passed. The function writes a failure to the console and throws it again; the line is
  written by the handler below, the one caller.
\<close>

definition getHistoricalData ::
  "sinks \<Rightarrow> int option \<Rightarrow> int option \<Rightarrow> server \<Rightarrow> js_error + SensorDoc list" where
  "getHistoricalData env limit skip srv =
     findSorted env doc_timestamp
       (case limit of None \<Rightarrow> 100 | Some n \<Rightarrow> n)
       (case skip of None \<Rightarrow> 0 | Some n \<Rightarrow> n)
       (sensorCollection srv)"

text \<open>
  \<^verbatim>\<open>parseInt(q) || d\<close> on a query parameter: a missing parameter is \<^verbatim>\<open>undefined\<close>,
  which \<^verbatim>\<open>parseInt\<close> reads as the text \<open>undefined\<close>; NaN and 0 are falsy. The count
  is the integer that was written: beyond \<open>2 ^ 53\<close> the source rounds it to a binary64
  value, which is not done here.
\<close>

definition queryInt :: "string option \<Rightarrow> int \<Rightarrow> int" where
  "queryInt q d =
     (case parseIntMath (case q of None \<Rightarrow> ''undefined'' | Some t \<Rightarrow> t) of
        None \<Rightarrow> d
      | Some n \<Rightarrow> if n = 0 then d else n)"

text \<open>\<^verbatim>\<open>GET /data/history\<close>.\<close>

definition getDataHistory ::
  "sinks \<Rightarrow> instant \<Rightarrow> string option \<Rightarrow> string option \<Rightarrow> server \<Rightarrow> response \<times> server" where
  "getDataHistory env now qLimit qSkip srv =
     (let limit = queryInt qLimit 100;
          skip = queryInt qSkip 0
      in case getHistoricalData env (Some limit) (Some skip) srv of
           Inr docs \<Rightarrow> (Response 200 (Readings docs), srv)
         | Inl error \<Rightarrow>
             (Response 500 (ErrorOnly error),
              saveErrorLog env now ''Error fetching sensor history'' error
                (consoleError ''Error fetching history:''
                   (consoleError ''Error fetching historical data:'' srv))))"

text \<open>
  \<^verbatim>\<open>getLogs(options)\<close>. A query parameter that is missing or empty is falsy and adds
  no condition. \<open>newDate\<close> is the \<^verbatim>\<open>Date\<close> constructor on a string, \<open>None\<close> for an
  invalid date, which the query refuses.
\<close>

definition typeMatches :: "string option \<Rightarrow> LogDoc \<Rightarrow> bool" where
  "typeMatches type l = (case type of None \<Rightarrow> True | Some t \<Rightarrow> t = [] \<or> log_type l = t)"

definition dateOf :: "(string \<Rightarrow> instant option) \<Rightarrow> string option \<Rightarrow> instant option option" where
  "dateOf newDate q =
     (case q of
        None \<Rightarrow> Some None
      | Some t \<Rightarrow>
          if t = [] then Some None
          else (case newDate t of None \<Rightarrow> None | Some d \<Rightarrow> Some (Some d)))"

definition inRange :: "instant option \<Rightarrow> instant option \<Rightarrow> LogDoc \<Rightarrow> bool" where
  "inRange lo hi l =
     ((case lo of None \<Rightarrow> True | Some d \<Rightarrow> d \<le> log_timestamp l) \<and>
      (case hi of None \<Rightarrow> True | Some d \<Rightarrow> log_timestamp l \<le> d))"

definition getLogs ::
  "sinks \<Rightarrow> (string \<Rightarrow> instant option) \<Rightarrow> string option \<Rightarrow> int option \<Rightarrow> int option \<Rightarrow>
   string option \<Rightarrow> string option \<Rightarrow> server \<Rightarrow> js_error + LogDoc list" where
  "getLogs env newDate type limit skip startDate endDate srv =
     (case (dateOf newDate startDate, dateOf newDate endDate) of
        (Some lo, Some hi) \<Rightarrow>
          findSorted env log_timestamp
            (case limit of None \<Rightarrow> 100 | Some n \<Rightarrow> n)
            (case skip of None \<Rightarrow> 0 | Some n \<Rightarrow> n)
            (filter (\<lambda>l. typeMatches type l \<and> inRange lo hi l) (logCollection srv))
      | _ \<Rightarrow> Inl MongoError)"

text \<open>
  \<^verbatim>\<open>GET /logs\<close>. A failure is written to the console by \<^verbatim>\<open>getLogs\<close> and again
  by the handler.
\<close>

definition getLogsHandler ::
  "sinks \<Rightarrow> (string \<Rightarrow> instant option) \<Rightarrow> string option \<Rightarrow> string option \<Rightarrow> string option \<Rightarrow>
   string option \<Rightarrow> string option \<Rightarrow> server \<Rightarrow> response \<times> server" where
  "getLogsHandler env newDate qType qLimit qSkip qStartDate qEndDate srv =
     (case getLogs env newDate qType (Some (queryInt qLimit 100)) (Some (queryInt qSkip 0))
             qStartDate qEndDate srv of
        Inr logs \<Rightarrow> (Response 200 (Logs logs), srv)
      | Inl error \<Rightarrow>
          (Response 500 (ErrorOnly error),
           consoleError ''Error fetching logs:'' (consoleError ''Error fetching logs:'' srv)))"

section \<open>Notions used in the statements\<close>

text \<open>
  The loop read token by token: the effect of one token given the token after it, if
  any, and the run over a list of tokens.
\<close>

definition parseToken :: "string \<Rightarrow> string option \<Rightarrow> sensorState \<Rightarrow> sensorState" where
  "parseToken tok nxt sd =
     (let part = js_trim tok;
          follows = (case nxt of None \<Rightarrow> False | Some n \<Rightarrow> \<not> js_includes n CHR '':'');
          status = (case nxt of None \<Rightarrow> [] | Some n \<Rightarrow> js_trim n)
      in if js_includes part CHR '':'' then
           (let key = partKey part; val = partValue part in
            if key = ''Moisture'' then
              (if follows
               then sd\<lparr>moisture := Some (parseInt val), moistureStatus := Some status\<rparr>
               else sd\<lparr>moisture := Some (parseInt val)\<rparr>)
            else if key = ''Light'' then
              (if follows
               then sd\<lparr>light := Some (parseInt val), lightStatus := Some status\<rparr>
               else sd\<lparr>light := Some (parseInt val)\<rparr>)
            else if key = ''Water'' then
              (if follows
               then sd\<lparr>water := Some (parseInt val), waterStatus := Some status\<rparr>
               else sd\<lparr>water := Some (parseInt val)\<rparr>)
            else if key = ''Temp'' then sd\<lparr>temperature := Some (parseFloat val)\<rparr>
            else if key = ''Humid'' then sd\<lparr>humidity := Some (parseFloat val)\<rparr>
            else if key = ''Servo'' then sd\<lparr>servo := Some (parseInt val)\<rparr>
            else sd)
         else sd)"

fun parseTokens :: "string list \<Rightarrow> sensorState \<Rightarrow> sensorState" where
  "parseTokens [] sd = sd"
| "parseTokens [t] sd = parseToken t None sd"
| "parseTokens (t # u # ts) sd = parseTokens (u # ts) (parseToken t (Some u) sd)"

text \<open>The values on which \<^verbatim>\<open>split\<close> is the method of strings.\<close>

definition isString :: "jsval \<Rightarrow> bool" where
  "isString v = (case v of JStr t \<Rightarrow> True | _ \<Rightarrow> False)"

text \<open>The key a token carries, if it has the form \<open>key:value\<close>, and its value.\<close>

definition keyOf :: "string \<Rightarrow> string option" where
  "keyOf tok =
     (if js_includes (js_trim tok) CHR '':'' then Some (partKey (js_trim tok)) else None)"

definition valueOf :: "string \<Rightarrow> string" where
  "valueOf tok = partValue (js_trim tok)"

text \<open>The last token that carries the key \<open>k\<close>.\<close>

definition lastWithKey :: "string \<Rightarrow> string list \<Rightarrow> string option" where
  "lastWithKey k parts = find (\<lambda>t. keyOf t = Some k) (rev parts)"

text \<open>
  The token after the last token that carries the key \<open>k\<close> and is followed by a token
  without a colon.
\<close>

definition statusAfter :: "string \<Rightarrow> string list \<Rightarrow> string option" where
  "statusAfter k parts =
     map_option snd
       (find (\<lambda>p. keyOf (fst p) = Some k \<and> \<not> js_includes (snd p) CHR '':'')
          (rev (zip parts (tl parts))))"

text \<open>A reading with no sensor value.\<close>

definition blankReading :: "instant \<Rightarrow> jsval \<Rightarrow> jsval \<Rightarrow> sensorState" where
  "blankReading t r p =
     \<lparr>timestamp = t, moisture = None, moistureStatus = None, light = None,
      lightStatus = None, water = None, waterStatus = None, temperature = None,
      humidity = None, servo = None, raw = r, requestedServoPosition = p\<rparr>"

text \<open>
  A line is the comma-joined sequence of its tokens. \<open>keyToken k v\<close> is the token
  \<open>k:v\<close>. The key groups of a full line: a sensor with a status is its token followed
  by the status token.
\<close>

fun joinComma :: "string list \<Rightarrow> string" where
  "joinComma [] = []"
| "joinComma [t] = t"
| "joinComma (t # u # ts) = t @ CHR '','' # joinComma (u # ts)"

definition keyToken :: "string \<Rightarrow> string \<Rightarrow> string" where
  "keyToken k v = k @ CHR '':'' # v"

definition keyGroups ::
  "string \<Rightarrow> string \<Rightarrow> string \<Rightarrow> string \<Rightarrow> string \<Rightarrow> string \<Rightarrow> string \<Rightarrow> string \<Rightarrow> string \<Rightarrow>
   string list list" where
  "keyGroups mv ms lv ls wv ws tv hv sv =
     [[keyToken ''Moisture'' mv, ms], [keyToken ''Light'' lv, ls],
      [keyToken ''Water'' wv, ws], [keyToken ''Temp'' tv], [keyToken ''Humid'' hv],
      [keyToken ''Servo'' sv]]"

definition noComma :: "string \<Rightarrow> bool" where
  "noComma t = (\<not> js_includes t CHR '','')"

definition bareWord :: "string \<Rightarrow> bool" where
  "bareWord t = (\<not> js_includes t CHR '','' \<and> \<not> js_includes t CHR '':'')"

text \<open>
  A value with no number at its start: after leading white space and one optional sign
  comes neither a digit, nor a point, nor the letter I.
\<close>

definition notNumeric :: "string \<Rightarrow> bool" where
  "notNumeric v =
     (let S = dropWhile isWhiteSpace v;
          U = (if S \<noteq> [] \<and> (hd S = CHR ''+'' \<or> hd S = CHR ''-'') then tl S else S)
      in case U of
           [] \<Rightarrow> True
         | c # _ \<Rightarrow> \<not> isRadixDigit 10 c \<and> c \<noteq> CHR ''.'' \<and> c \<noteq> CHR ''I'')"

text \<open>
  The three steps of \<^verbatim>\<open>POST /data\<close> after the data was read: the parse, the file
  append and the save, each with its own report.
\<close>

definition afterParse :: "sinks \<Rightarrow> instant \<Rightarrow> jsval \<Rightarrow> sensorState \<Rightarrow> server \<Rightarrow> server" where
  "afterParse env now rawData mem srv =
     (if isString rawData then srv\<lparr>sensorData := mem\<rparr>
      else saveErrorLog env now ''Error parsing sensor data'' TypeError
             (consoleError ''Error parsing sensor data:'' (srv\<lparr>sensorData := mem\<rparr>)))"

definition afterAppend :: "sinks \<Rightarrow> instant \<Rightarrow> jsval \<Rightarrow> server \<Rightarrow> server" where
  "afterAppend env now rawData srv1 =
     (if fileOk env then srv1\<lparr>sensorLogFile := sensorLogFile srv1 @ [(now, rawData)]\<rparr>
      else saveErrorLog env now ''Error writing to file log'' FsError
             (consoleError ''Error writing to log file:'' srv1))"

section \<open>What the sinks and the parse loop leave alone\<close>

lemma sensorData_consoleError [simp]:
  "sensorData (consoleError line srv) = sensorData srv"
  by (simp add: consoleError_def)

lemma sensorData_saveLog [simp]:
  "sensorData (saveLog env now type message payload srv) = sensorData srv"
  by (simp add: saveLog_def)

lemma sensorData_saveErrorLog [simp]:
  "sensorData (saveErrorLog env now message error srv) = sensorData srv"
  by (simp add: saveErrorLog_def)

lemma sensorData_saveServoLog [simp]:
  "sensorData (saveServoLog env now position srv) = sensorData srv"
  by (simp add: saveServoLog_def)

lemma sensorData_saveSensorData [simp]:
  "sensorData (saveSensorData env now d srv) = sensorData srv"
  by (simp add: saveSensorData_def)

lemma parseStep_frame:
  "timestamp (parseStep parts i sd) = timestamp sd \<and>
   raw (parseStep parts i sd) = raw sd \<and>
   requestedServoPosition (parseStep parts i sd) = requestedServoPosition sd"
  by (simp add: parseStep_def Let_def)

lemma fold_parseStep_frame:
  "timestamp (fold (parseStep parts) ixs sd) = timestamp sd \<and>
   raw (fold (parseStep parts) ixs sd) = raw sd \<and>
   requestedServoPosition (fold (parseStep parts) ixs sd) = requestedServoPosition sd"
  by (induction ixs arbitrary: sd) (simp_all add: parseStep_frame)

lemma parseLoop_frame:
  "timestamp (parseLoop parts sd) = timestamp sd \<and>
   raw (parseLoop parts sd) = raw sd \<and>
   requestedServoPosition (parseLoop parts sd) = requestedServoPosition sd"
  by (simp add: parseLoop_def fold_parseStep_frame)

lemma reset_stamped:
  "resetSensorValues (sd\<lparr>raw := r, timestamp := t\<rparr>) =
   blankReading t r (requestedServoPosition sd)"
  by (cases sd) (simp add: resetSensorValues_def blankReading_def)

lemma sensorData_postData_string:
  "sensorData (snd (postData env now (Some (JStr s)) srv)) =
   parseLoop (js_split CHR '','' s)
     (blankReading now (JStr s) (requestedServoPosition (sensorData srv)))"
  by (simp add: postData_def parseSensorData_def Let_def reset_stamped)

lemma parseSensorData_not_string:
  "\<not> isString rawData \<Longrightarrow> parseSensorData rawData sd = Inl TypeError"
  by (cases rawData) (simp_all add: parseSensorData_def isString_def)

lemma sensorData_postData_not_string:
  "\<not> isString rawData \<Longrightarrow> \<not> toStringThrows rawData \<Longrightarrow>
   sensorData (snd (postData env now (Some rawData) srv)) =
   (sensorData srv)\<lparr>raw := rawData, timestamp := now\<rparr>"
  by (simp add: postData_def parseSensorData_not_string Let_def)

lemma sensorData_postData_throws:
  "toStringThrows rawData \<Longrightarrow>
   sensorData (snd (postData env now (Some rawData) srv)) = sensorData srv"
  by (simp add: postData_def dataRequestFailed_def)

lemma fst_postData_Some:
  "\<not> toStringThrows rawData \<Longrightarrow>
   fst (postData env now (Some rawData) srv) =
   Response 200 (Json [(''status'', JStr ''success''), (''message'', JStr ''Data received'')])"
  by (simp add: postData_def Let_def json_def jsonValue_def)

lemma numberOrNull_defined [simp]: "numberOrNull n \<noteq> JUndefined"
  by (simp add: numberOrNull_def split: option.split)

lemma stringOrNull_defined [simp]: "stringOrNull n \<noteq> JUndefined"
  by (simp add: stringOrNull_def split: option.split)

lemma servoCheck_pending:
  "requestedServoPosition (sensorData srv) = p \<Longrightarrow> p \<noteq> JUndefined \<Longrightarrow>
   servoCheck srv =
     (Response 200 (json [(''status'', JStr ''success''), (''position'', p)]),
      srv\<lparr>sensorData := (sensorData srv)\<lparr>requestedServoPosition := JUndefined\<rparr>\<rparr>)"
  by (simp add: servoCheck_def Let_def)

lemma servoCheck_empty:
  "requestedServoPosition (sensorData srv) = JUndefined \<Longrightarrow>
   servoCheck srv = (Response 200 (json [(''status'', JStr ''no_request'')]), srv)"
  by (simp add: servoCheck_def)

lemma requested_postServo:
  "\<not> toStringThrows p \<Longrightarrow>
   requestedServoPosition (sensorData (snd (postServo env now (Some p) srv))) = p"
  by (simp add: postServo_def Let_def)

text \<open>The unfoldings that round a concrete fraction and evaluate the parser on a concrete line.\<close>

lemma bitLength_eval:
  "bitLength 0 = 0"
  "bitLength (Suc 0) = Suc 0"
  "bitLength (numeral k) = Suc (bitLength (numeral k div 2))"
  by (simp_all add: bitLength.simps [of 0] bitLength.simps [of "Suc 0"]
      bitLength.simps [of "numeral k"])

lemmas binary64_eval =
  binary64_def scaled_def significand_def roundHalfEven_def ulpExponent_def floorLog2_def
  atLeastPow2_def pow2_def bitLength_eval

lemmas parse_eval =
  parseLoop_def parseStep_def statusFollows_def partKey_def partValue_def
  blankReading_def js_trim_def js_includes_def isWhiteSpace_def
  parseInt_def parseIntMath_def parseFloat_def isRadixDigit_def digitValue_def
  digitsValue_def exponentPart_def decimalNumber_def upt_rec binary64_eval

section \<open>The servo endpoints\<close>

lemma servoRoutePOST_invalid:
  "invalidPosition p \<Longrightarrow>
   servoRoutePOST (Some p) =
     Response 400
       (Json [(''error'', JStr ''Invalid position. Must be a number between 0 and 180.'')])"
  by (simp add: servoRoutePOST_def json_def jsonValue_def)

text \<open>
  Claim C1. The Express handler of \<^verbatim>\<open>POST /servo\<close> does not validate: with the body
  \<^verbatim>\<open>{position: 200}\<close> on a fresh server it answers 200 with the success body and puts
  200 into the mailbox, and the next \<^verbatim>\<open>GET /servo-check\<close> hands 200 to the device. The
  route \<^verbatim>\<open>app/api/servo/route.ts\<close> refuses the same body with status 400.
\<close>

theorem express_servo_accepts_200:
  "fst (postServo allOk 1 (Some (JNum (Num 200))) (initialServer 0)) =
     Response 200 (Json [(''status'', JStr ''success''),
        (''message'', JStr ''Servo position request received''),
        (''position'', JNum (Num 200))]) \<and>
   requestedServoPosition (sensorData (initialServer 0)) = JUndefined \<and>
   requestedServoPosition
     (sensorData (snd (postServo allOk 1 (Some (JNum (Num 200))) (initialServer 0)))) =
     JNum (Num 200) \<and>
   fst (servoCheck (snd (postServo allOk 1 (Some (JNum (Num 200))) (initialServer 0)))) =
     Response 200 (Json [(''status'', JStr ''success''), (''position'', JNum (Num 200))]) \<and>
   servoRoutePOST (Some (JNum (Num 200))) =
     Response 400
       (Json [(''error'', JStr ''Invalid position. Must be a number between 0 and 180.'')])"
  by (simp add: postServo_def servoCheck_def Let_def json_def jsonValue_def initialServer_def
      initialSensorData_def servoRoutePOST_def invalidPosition_def jsLess_def)

section \<open>Ingestion replaces the reading\<close>

text \<open>
  Claim C2, as stated, on two bodies. The server holds a reading of instant 0 with
  moisture 5. \<^verbatim>\<open>POST /data\<close> with the body \<^verbatim>\<open>{}\<close> at instant 2 is answered with the
  success body; afterwards \<open>raw\<close> is absent and the moisture is still 5.
  \<^verbatim>\<open>POST /data\<close> with the body \<^verbatim>\<open>{"data": {"toString": 1}}\<close> at instant 2 is answered
  with status 500; afterwards the timestamp is still 0.
\<close>

theorem ingest_missing_data_counterexample:
  "fst (postData allOk 2 (Some JUndefined)
      ((initialServer 0)\<lparr>sensorData := (initialSensorData 0)\<lparr>moisture := Some (Num 5)\<rparr>\<rparr>)) =
     Response 200 (Json [(''status'', JStr ''success''), (''message'', JStr ''Data received'')]) \<and>
   raw (sensorData (snd (postData allOk 2 (Some JUndefined)
      ((initialServer 0)\<lparr>sensorData := (initialSensorData 0)\<lparr>moisture := Some (Num 5)\<rparr>\<rparr>)))) =
     JUndefined \<and>
   moisture (sensorData (snd (postData allOk 2 (Some JUndefined)
      ((initialServer 0)\<lparr>sensorData := (initialSensorData 0)\<lparr>moisture := Some (Num 5)\<rparr>\<rparr>)))) =
     Some (Num 5) \<and>
   fst (postData allOk 2 (Some (JObj [(''toString'', JNum (Num 1))]))
      ((initialServer 0)\<lparr>sensorData := (initialSensorData 0)\<lparr>moisture := Some (Num 5)\<rparr>\<rparr>)) =
     Response 500 (ErrorStatus TypeError) \<and>
   timestamp (sensorData (snd (postData allOk 2 (Some (JObj [(''toString'', JNum (Num 1))]))
      ((initialServer 0)\<lparr>sensorData := (initialSensorData 0)\<lparr>moisture := Some (Num 5)\<rparr>\<rparr>)))) =
     0"
proof -
  let ?srv = "(initialServer 0)\<lparr>sensorData := (initialSensorData 0)\<lparr>moisture := Some (Num 5)\<rparr>\<rparr>"
  have missing: "fst (postData allOk 2 (Some JUndefined) ?srv) =
      Response 200 (Json [(''status'', JStr ''success''), (''message'', JStr ''Data received'')]) \<and>
    raw (sensorData (snd (postData allOk 2 (Some JUndefined) ?srv))) = JUndefined \<and>
    moisture (sensorData (snd (postData allOk 2 (Some JUndefined) ?srv))) = Some (Num 5)"
    by (simp add: fst_postData_Some sensorData_postData_not_string isString_def)
  have refused: "fst (postData allOk 2 (Some (JObj [(''toString'', JNum (Num 1))])) ?srv) =
      Response 500 (ErrorStatus TypeError)"
    by (simp add: postData_def dataRequestFailed_def)
  have kept: "timestamp (sensorData (snd (postData allOk 2
      (Some (JObj [(''toString'', JNum (Num 1))])) ?srv))) = 0"
    by (simp add: sensorData_postData_throws initialSensorData_def)
  from missing refused kept show ?thesis
    by simp
qed

text \<open>
  Claim C2, amended. After \<^verbatim>\<open>POST /data\<close> with a value \<open>data\<close> that the handler can
  write into its first message (every string, number, boolean and \<^verbatim>\<open>null\<close>, and a
  missing \<open>data\<close>), the object in memory carries the receipt instant as its timestamp
  and the value as received as \<open>raw\<close>, absent when \<open>data\<close> is missing. When the value
  is a string \<open>s\<close>, the object is the parser's output on a reading whose nine sensor
  properties are all absent: no sensor value of the previous state survives. This holds
  for every line, also one in which the parser recognises nothing.
\<close>

theorem ingest_replaces_reading:
  "(\<not> toStringThrows rawData \<longrightarrow>
      timestamp (sensorData (snd (postData env now (Some rawData) srv))) = now \<and>
      raw (sensorData (snd (postData env now (Some rawData) srv))) = rawData) \<and>
   timestamp (sensorData (snd (postData env now (Some (JStr s)) srv))) = now \<and>
   raw (sensorData (snd (postData env now (Some (JStr s)) srv))) = JStr s \<and>
   sensorData (snd (postData env now (Some (JStr s)) srv)) =
     parseLoop (js_split CHR '','' s)
       (blankReading now (JStr s) (requestedServoPosition (sensorData srv)))"
proof -
  have stamped: "\<not> toStringThrows rawData \<longrightarrow>
      timestamp (sensorData (snd (postData env now (Some rawData) srv))) = now \<and>
      raw (sensorData (snd (postData env now (Some rawData) srv))) = rawData"
    by (cases "isString rawData")
      (auto simp add: isString_def sensorData_postData_string parseLoop_frame blankReading_def
        sensorData_postData_not_string split: jsval.splits)
  then show ?thesis
    by (simp add: sensorData_postData_string parseLoop_frame blankReading_def)
qed

theorem ingest_replaces_reading_witness:
  "\<not> toStringThrows (JNum (Num 7)) \<and>
   raw (sensorData (snd (postData allOk 2 (Some (JNum (Num 7))) (initialServer 0)))) =
     JNum (Num 7) \<and>
   sensorData (snd (postData allOk 2 (Some (JStr ''Temp:2.5''))
      ((initialServer 0)\<lparr>sensorData := (initialSensorData 0)\<lparr>moisture := Some (Num 5)\<rparr>\<rparr>))) =
   \<lparr>timestamp = 2, moisture = None, moistureStatus = None, light = None,
    lightStatus = None, water = None, waterStatus = None,
    temperature = Some (Num (5 / 2)), humidity = None, servo = None,
    raw = JStr ''Temp:2.5'', requestedServoPosition = JUndefined\<rparr>"
proof -
  have a: "raw (sensorData (snd (postData allOk 2 (Some (JNum (Num 7))) (initialServer 0)))) =
      JNum (Num 7)"
    using ingest_replaces_reading [of "JNum (Num 7)" allOk 2 "initialServer 0"] by simp
  have b: "sensorData (snd (postData allOk 2 (Some (JStr ''Temp:2.5''))
      ((initialServer 0)\<lparr>sensorData := (initialSensorData 0)\<lparr>moisture := Some (Num 5)\<rparr>\<rparr>))) =
    parseLoop (js_split CHR '','' ''Temp:2.5'')
      (blankReading 2 (JStr ''Temp:2.5'')
        (requestedServoPosition (sensorData
          ((initialServer 0)\<lparr>sensorData := (initialSensorData 0)\<lparr>moisture := Some (Num 5)\<rparr>\<rparr>))))"
    using ingest_replaces_reading [of _ allOk 2
      "(initialServer 0)\<lparr>sensorData := (initialSensorData 0)\<lparr>moisture := Some (Num 5)\<rparr>\<rparr>"
      "''Temp:2.5''"]
    by blast
  show ?thesis
    unfolding b using a by (simp add: parse_eval initialSensorData_def)
qed

section \<open>The command mailbox\<close>

text \<open>
  Claim C4. Take \<^verbatim>\<open>POST /servo\<close> with a position \<open>p\<close> that is present and that the
  handler can write into its first message: every number, position 0 included, every
  string and boolean and \<^verbatim>\<open>null\<close> (an object with a property \<open>toString\<close> of its own
  makes the handler answer 500 and leaves the mailbox as it was). The request is
  answered with the success body; the first \<^verbatim>\<open>GET /servo-check\<close> after it answers
  \<^verbatim>\<open>{status: "success", position: p}\<close> and clears the slot in the same step, the next
  one answers \<^verbatim>\<open>{status: "no_request"}\<close>, and the two answers differ.
\<close>

theorem servo_command_delivered_once:
  assumes "p \<noteq> JUndefined" and "\<not> toStringThrows p"
  shows "fst (postServo env now (Some p) srv) =
           Response 200 (json [(''status'', JStr ''success''),
              (''message'', JStr ''Servo position request received''), (''position'', p)]) \<and>
         fst (servoCheck (snd (postServo env now (Some p) srv))) =
           Response 200 (json [(''status'', JStr ''success''), (''position'', p)]) \<and>
         requestedServoPosition
           (sensorData (snd (servoCheck (snd (postServo env now (Some p) srv))))) = JUndefined \<and>
         fst (servoCheck (snd (servoCheck (snd (postServo env now (Some p) srv))))) =
           Response 200 (json [(''status'', JStr ''no_request'')]) \<and>
         fst (servoCheck (snd (postServo env now (Some p) srv))) \<noteq>
           Response 200 (json [(''status'', JStr ''no_request'')])"
proof -
  let ?s1 = "snd (postServo env now (Some p) srv)"
  have pending: "requestedServoPosition (sensorData ?s1) = p"
    using assms(2) by (rule requested_postServo)
  have first: "servoCheck ?s1 =
      (Response 200 (json [(''status'', JStr ''success''), (''position'', p)]),
       ?s1\<lparr>sensorData := (sensorData ?s1)\<lparr>requestedServoPosition := JUndefined\<rparr>\<rparr>)"
    using pending assms(1) by (rule servoCheck_pending)
  have cleared: "requestedServoPosition (sensorData (snd (servoCheck ?s1))) = JUndefined"
    by (simp add: first)
  have second: "fst (servoCheck (snd (servoCheck ?s1))) =
      Response 200 (json [(''status'', JStr ''no_request'')])"
    using servoCheck_empty [OF cleared] by simp
  have posted: "fst (postServo env now (Some p) srv) =
      Response 200 (json [(''status'', JStr ''success''),
        (''message'', JStr ''Servo position request received''), (''position'', p)])"
    using assms(2) by (simp add: postServo_def Let_def)
  have distinct: "fst (servoCheck ?s1) \<noteq> Response 200 (json [(''status'', JStr ''no_request'')])"
    using assms(1) by (simp add: first json_def)
  from posted first cleared second distinct show ?thesis by simp
qed

theorem servo_command_delivered_once_witness:
  "JNum (Num 0) \<noteq> JUndefined \<and> \<not> toStringThrows (JNum (Num 0)) \<and>
   fst (servoCheck (snd (postServo allOk 1 (Some (JNum (Num 0))) (initialServer 0)))) =
     Response 200 (Json [(''status'', JStr ''success''), (''position'', JNum (Num 0))]) \<and>
   fst (servoCheck (snd (servoCheck (snd (postServo allOk 1 (Some (JNum (Num 0)))
     (initialServer 0)))))) =
     Response 200 (Json [(''status'', JStr ''no_request'')])"
  using servo_command_delivered_once [of "JNum (Num 0)" allOk 1 "initialServer 0"]
  by (simp add: json_def jsonValue_def)

section \<open>The reading and the mailbox on one object\<close>

text \<open>
  Claim C9. \<^verbatim>\<open>POST /data\<close> leaves the pending servo command as it was, whatever the
  body; \<^verbatim>\<open>GET /servo-check\<close> changes no property of the object but the pending
  command; \<^verbatim>\<open>GET /data\<close> changes nothing and its body carries the property
  \<open>requestedServoPosition\<close> exactly when a command is pending.
\<close>

theorem ingest_and_mailbox_do_not_interfere:
  "requestedServoPosition (sensorData (snd (postData env now reqBody srv))) =
     requestedServoPosition (sensorData srv) \<and>
   (sensorData (snd (servoCheck srv)))\<lparr>requestedServoPosition := x\<rparr> =
     (sensorData srv)\<lparr>requestedServoPosition := x\<rparr> \<and>
   snd (getData srv) = srv \<and>
   (\<exists>props. fst (getData srv) = Response 200 (Json props) \<and>
      (if requestedServoPosition (sensorData srv) = JUndefined
       then ''requestedServoPosition'' \<notin> fst ` set props
       else (''requestedServoPosition'', jsonValue (requestedServoPosition (sensorData srv)))
              \<in> set props))"
proof -
  have a: "requestedServoPosition (sensorData (snd (postData env now reqBody srv))) =
     requestedServoPosition (sensorData srv)"
    by (cases reqBody)
      (simp_all add: postData_def dataRequestFailed_def Let_def parseSensorData_def
        parseLoop_frame resetSensorValues_def split: jsval.split)
  have b: "(sensorData (snd (servoCheck srv)))\<lparr>requestedServoPosition := x\<rparr> =
     (sensorData srv)\<lparr>requestedServoPosition := x\<rparr>"
    by (simp add: servoCheck_def Let_def)
  have c: "snd (getData srv) = srv"
    by (simp add: getData_def Let_def)
  have d: "\<exists>props. fst (getData srv) = Response 200 (Json props) \<and>
      (if requestedServoPosition (sensorData srv) = JUndefined
       then ''requestedServoPosition'' \<notin> fst ` set props
       else (''requestedServoPosition'', jsonValue (requestedServoPosition (sensorData srv)))
              \<in> set props)"
    by (cases "raw (sensorData srv) = JUndefined")
      (simp_all add: getData_def Let_def json_def image_iff)
  from a b c d show ?thesis by blast
qed

theorem ingest_and_mailbox_do_not_interfere_witness:
  "requestedServoPosition (sensorData (snd (postData allOk 3 (Some (JStr ''Servo:10''))
      (snd (postServo allOk 2 (Some (JNum (Num 90))) (initialServer 0)))))) = JNum (Num 90) \<and>
   timestamp (sensorData (snd (servoCheck
      (snd (postServo allOk 2 (Some (JNum (Num 90))) (initialServer 0)))))) =
   timestamp (sensorData (snd (postServo allOk 2 (Some (JNum (Num 90))) (initialServer 0))))"
proof -
  let ?srv = "snd (postServo allOk 2 (Some (JNum (Num 90))) (initialServer 0))"
  note inst = ingest_and_mailbox_do_not_interfere
    [of allOk 3 "Some (JStr ''Servo:10'')" ?srv JUndefined]
  from inst have eq:
    "(sensorData (snd (servoCheck ?srv)))\<lparr>requestedServoPosition := JUndefined\<rparr> =
     (sensorData ?srv)\<lparr>requestedServoPosition := JUndefined\<rparr>"
    by blast
  have "timestamp ((sensorData (snd (servoCheck ?srv)))\<lparr>requestedServoPosition := JUndefined\<rparr>) =
        timestamp ((sensorData ?srv)\<lparr>requestedServoPosition := JUndefined\<rparr>)"
    by (rule arg_cong [OF eq])
  then have ts: "timestamp (sensorData (snd (servoCheck ?srv))) = timestamp (sensorData ?srv)"
    by simp
  from inst have "requestedServoPosition (sensorData (snd (postData allOk 3
      (Some (JStr ''Servo:10'')) ?srv))) = requestedServoPosition (sensorData ?srv)"
    by blast
  then show ?thesis using ts by (simp add: requested_postServo)
qed

section \<open>Failing sinks\<close>

lemma consoleError_fields [simp]:
  "sensorLogFile (consoleError line srv) = sensorLogFile srv"
  "sensorCollection (consoleError line srv) = sensorCollection srv"
  "logCollection (consoleError line srv) = logCollection srv"
  "consoleErrors (consoleError line srv) = consoleErrors srv @ [line]"
  by (simp_all add: consoleError_def)

lemma saveLog_fields [simp]:
  "sensorLogFile (saveLog env now type message payload srv) = sensorLogFile srv"
  "sensorCollection (saveLog env now type message payload srv) = sensorCollection srv"
  "logCollection (saveLog env now type message payload srv) =
     (if logSaveOk env then logCollection srv @ [newLog now type message payload]
      else logCollection srv)"
  "consoleErrors (saveLog env now type message payload srv) =
     (if logSaveOk env then consoleErrors srv
      else consoleErrors srv @ [''Error saving log to MongoDB:''])"
  by (simp_all add: saveLog_def)

lemma saveErrorLog_fields [simp]:
  "sensorLogFile (saveErrorLog env now message error srv) = sensorLogFile srv"
  "sensorCollection (saveErrorLog env now message error srv) = sensorCollection srv"
  "logCollection (saveErrorLog env now message error srv) =
     (if logSaveOk env then logCollection srv @ [newLog now ''error'' message (ErrorData error)]
      else logCollection srv)"
  "consoleErrors (saveErrorLog env now message error srv) =
     (if logSaveOk env then consoleErrors srv
      else consoleErrors srv @ [''Error saving log to MongoDB:''])"
  by (simp_all add: saveErrorLog_def)

lemma saveSensorData_fields:
  "sensorLogFile (saveSensorData env now d srv) = sensorLogFile srv"
  "sensorCollection (saveSensorData env now d srv) =
     (if sensorSaveOk env \<and> schemaAccepts d then sensorCollection srv @ [sensorDoc d]
      else sensorCollection srv)"
  "logCollection (saveSensorData env now d srv) =
     (if sensorSaveOk env \<and> schemaAccepts d \<and> logSaveOk env
      then logCollection srv @ [newLog now ''sensor'' ''Sensor data received'' (RawData (raw d))]
      else logCollection srv)"
  "consoleErrors (saveSensorData env now d srv) =
     (if sensorSaveOk env \<and> schemaAccepts d
      then (if logSaveOk env then consoleErrors srv
            else consoleErrors srv @ [''Error saving log to MongoDB:''])
      else consoleErrors srv @ [''Error saving to MongoDB:''])"
  by (simp_all add: saveSensorData_def)

lemma sensorData_postData_Some:
  "\<not> toStringThrows rawData \<Longrightarrow>
   sensorData (snd (postData env now (Some rawData) srv)) =
   (case parseSensorData rawData ((sensorData srv)\<lparr>raw := rawData, timestamp := now\<rparr>) of
      Inr sd1 \<Rightarrow> sd1
    | Inl error \<Rightarrow> (sensorData srv)\<lparr>raw := rawData, timestamp := now\<rparr>)"
  by (simp add: postData_def Let_def split: sum.split)

lemma sensorData_postData_env:
  "\<not> toStringThrows rawData \<Longrightarrow>
   sensorData (snd (postData env now (Some rawData) srv)) =
   sensorData (snd (postData allOk now (Some rawData) srv))"
  by (simp add: sensorData_postData_Some)

lemma memory_stamped:
  assumes "\<not> toStringThrows rawData"
  shows "timestamp (sensorData (snd (postData env now (Some rawData) srv))) = now"
    and "raw (sensorData (snd (postData env now (Some rawData) srv))) = rawData"
  using assms
  by (simp_all add: sensorData_postData_Some parseSensorData_def parseLoop_frame
      resetSensorValues_def split: jsval.split)

lemma postData_steps:
  assumes "\<not> toStringThrows rawData"
  shows "snd (postData env now (Some rawData) srv) =
     saveSensorData env now (sensorData (snd (postData allOk now (Some rawData) srv)))
       (afterAppend env now rawData
          (afterParse env now rawData
             (sensorData (snd (postData allOk now (Some rawData) srv))) srv))"
proof (cases "isString rawData")
  case True
  then obtain s where s: "rawData = JStr s"
    by (cases rawData) (simp_all add: isString_def)
  have mem: "sensorData (snd (postData allOk now (Some (JStr s)) srv)) =
      parseLoop (js_split CHR '','' s)
        (resetSensorValues ((sensorData srv)\<lparr>raw := JStr s, timestamp := now\<rparr>))"
    by (simp add: sensorData_postData_Some parseSensorData_def)
  show ?thesis
    unfolding s mem
    by (simp add: postData_def Let_def parseSensorData_def afterParse_def afterAppend_def
        isString_def parseLoop_frame resetSensorValues_def)
next
  case False
  have mem: "sensorData (snd (postData allOk now (Some rawData) srv)) =
      (sensorData srv)\<lparr>raw := rawData, timestamp := now\<rparr>"
    using False assms by (rule sensorData_postData_not_string)
  show ?thesis
    unfolding mem using False assms
    by (simp add: postData_def Let_def parseSensorData_not_string afterParse_def
        afterAppend_def)
qed

text \<open>
  Claim C7. Take \<^verbatim>\<open>POST /data\<close> with a value the handler can write into its first
  message. Whatever the sinks do (the file append, the save of the document, the save
  of a log record may each fail), the response is the success body and the object in
  memory is the one a run with no failure leaves. The file receives its line exactly
  when the append succeeds; the collection receives the document exactly when the
  database takes it and the schema accepts it. Each failure is reported on its own: the
  log collection gains, when log records can be saved, one error record for a parse
  that threw, one error record for a failed append and the sensor record of a saved
  document, and nothing otherwise; the console gains one line for each failure, a
  failed save of a log record included. No report depends on another sink.
\<close>

theorem failing_sinks_do_not_reach_response_or_memory:
  assumes "\<not> toStringThrows rawData"
  shows
    "let after = snd (postData env now (Some rawData) srv);
         mem = sensorData (snd (postData allOk now (Some rawData) srv));
         saved = (sensorSaveOk env \<and> schemaAccepts mem);
         reports =
           (if isString rawData then []
            else [newLog now ''error'' ''Error parsing sensor data'' (ErrorData TypeError)]) @
           (if fileOk env then []
            else [newLog now ''error'' ''Error writing to file log'' (ErrorData FsError)]) @
           (if saved then [newLog now ''sensor'' ''Sensor data received'' (RawData rawData)]
            else [])
     in fst (postData env now (Some rawData) srv) =
          Response 200
            (Json [(''status'', JStr ''success''), (''message'', JStr ''Data received'')]) \<and>
        sensorData after = mem \<and>
        sensorLogFile after =
          (if fileOk env then sensorLogFile srv @ [(now, rawData)] else sensorLogFile srv) \<and>
        sensorCollection after =
          (if saved then sensorCollection srv @ [sensorDoc mem] else sensorCollection srv) \<and>
        mset (logCollection after) =
          mset (logCollection srv) + (if logSaveOk env then mset reports else {#}) \<and>
        mset (consoleErrors after) =
          mset (consoleErrors srv) +
          mset ((if isString rawData then [] else [''Error parsing sensor data:'']) @
                (if fileOk env then [] else [''Error writing to log file:'']) @
                (if saved then [] else [''Error saving to MongoDB:'']) @
                (if logSaveOk env then []
                 else replicate (length reports) ''Error saving log to MongoDB:''))"
proof -
  define mem where "mem = sensorData (snd (postData allOk now (Some rawData) srv))"
  have raw_mem: "raw mem = rawData"
    unfolding mem_def using assms by (rule memory_stamped(2))
  have after: "snd (postData env now (Some rawData) srv) =
      saveSensorData env now mem (afterAppend env now rawData (afterParse env now rawData mem srv))"
    unfolding mem_def using assms by (rule postData_steps)
  have response: "fst (postData env now (Some rawData) srv) =
      Response 200 (Json [(''status'', JStr ''success''), (''message'', JStr ''Data received'')])"
    using assms by (rule fst_postData_Some)
  have memory: "sensorData (snd (postData env now (Some rawData) srv)) = mem"
    unfolding mem_def using assms by (rule sensorData_postData_env)
  have appended: "sensorLogFile (snd (postData env now (Some rawData) srv)) =
      (if fileOk env then sensorLogFile srv @ [(now, rawData)] else sensorLogFile srv)"
    by (simp add: after saveSensorData_fields afterAppend_def afterParse_def)
  have docs: "sensorCollection (snd (postData env now (Some rawData) srv)) =
      (if sensorSaveOk env \<and> schemaAccepts mem then sensorCollection srv @ [sensorDoc mem]
       else sensorCollection srv)"
    by (simp add: after saveSensorData_fields afterAppend_def afterParse_def)
  have logs: "logCollection (snd (postData env now (Some rawData) srv)) =
      logCollection srv @
      (if logSaveOk env
       then (if isString rawData then []
             else [newLog now ''error'' ''Error parsing sensor data'' (ErrorData TypeError)]) @
            (if fileOk env then []
             else [newLog now ''error'' ''Error writing to file log'' (ErrorData FsError)]) @
            (if sensorSaveOk env \<and> schemaAccepts mem
             then [newLog now ''sensor'' ''Sensor data received'' (RawData rawData)]
             else [])
       else [])"
    by (simp add: after saveSensorData_fields afterAppend_def afterParse_def raw_mem)
  have console: "mset (consoleErrors (snd (postData env now (Some rawData) srv))) =
      mset (consoleErrors srv) +
      mset ((if isString rawData then [] else [''Error parsing sensor data:'']) @
            (if fileOk env then [] else [''Error writing to log file:'']) @
            (if sensorSaveOk env \<and> schemaAccepts mem then [] else [''Error saving to MongoDB:'']) @
            (if logSaveOk env then []
             else replicate
               (length
                 ((if isString rawData then []
                   else [newLog now ''error'' ''Error parsing sensor data'' (ErrorData TypeError)]) @
                  (if fileOk env then []
                   else [newLog now ''error'' ''Error writing to file log'' (ErrorData FsError)]) @
                  (if sensorSaveOk env \<and> schemaAccepts mem
                   then [newLog now ''sensor'' ''Sensor data received'' (RawData rawData)]
                   else [])))
               ''Error saving log to MongoDB:''))"
    by (simp add: after saveSensorData_fields afterAppend_def afterParse_def)
  have logs_mset: "mset (logCollection (snd (postData env now (Some rawData) srv))) =
      mset (logCollection srv) +
      (if logSaveOk env
       then mset ((if isString rawData then []
             else [newLog now ''error'' ''Error parsing sensor data'' (ErrorData TypeError)]) @
            (if fileOk env then []
             else [newLog now ''error'' ''Error writing to file log'' (ErrorData FsError)]) @
            (if sensorSaveOk env \<and> schemaAccepts mem
             then [newLog now ''sensor'' ''Sensor data received'' (RawData rawData)]
             else []))
       else {#})"
    unfolding logs by simp
  show ?thesis
    unfolding Let_def mem_def [symmetric]
    using response memory appended docs logs_mset console by blast
qed

theorem failing_sinks_do_not_reach_response_or_memory_witness:
  "\<not> toStringThrows (JStr ''Temp:2.5'') \<and>
   fst (postData \<lparr>fileOk = False, sensorSaveOk = False, logSaveOk = False, queryOk = True\<rparr>
         2 (Some (JStr ''Temp:2.5'')) (initialServer 0)) =
     Response 200 (Json [(''status'', JStr ''success''), (''message'', JStr ''Data received'')]) \<and>
   temperature (sensorData (snd (postData
         \<lparr>fileOk = False, sensorSaveOk = False, logSaveOk = False, queryOk = True\<rparr>
         2 (Some (JStr ''Temp:2.5'')) (initialServer 0)))) = Some (Num (5 / 2)) \<and>
   sensorCollection (snd (postData
         \<lparr>fileOk = False, sensorSaveOk = False, logSaveOk = False, queryOk = True\<rparr>
         2 (Some (JStr ''Temp:2.5'')) (initialServer 0))) = [] \<and>
   mset (logCollection (snd (postData
         \<lparr>fileOk = False, sensorSaveOk = False, logSaveOk = False, queryOk = True\<rparr>
         2 (Some (JStr ''Temp:2.5'')) (initialServer 0)))) = {#} \<and>
   mset (consoleErrors (snd (postData
         \<lparr>fileOk = False, sensorSaveOk = False, logSaveOk = False, queryOk = True\<rparr>
         2 (Some (JStr ''Temp:2.5'')) (initialServer 0)))) =
     {#''Error writing to log file:'', ''Error saving to MongoDB:'',
       ''Error saving log to MongoDB:''#}"
proof -
  have ok: "\<not> toStringThrows (JStr ''Temp:2.5'')"
    by simp
  show ?thesis
    using failing_sinks_do_not_reach_response_or_memory
      [OF ok, of "\<lparr>fileOk = False, sensorSaveOk = False, logSaveOk = False, queryOk = True\<rparr>"
        2 "initialServer 0", unfolded Let_def]
    by (simp add: sensorData_postData_string parse_eval initialServer_def isString_def)
qed

section \<open>The loop read token by token\<close>

lemma find_snoc:
  "find P (xs @ [x]) = (case find P xs of None \<Rightarrow> (if P x then Some x else None) | Some y \<Rightarrow> Some y)"
  by (induction xs) simp_all

lemma parseStep_parseToken:
  "i < length parts \<Longrightarrow>
   parseStep parts i sd =
   parseToken (parts ! i) (if Suc i < length parts then Some (parts ! Suc i) else None) sd"
  by (simp add: parseStep_def parseToken_def statusFollows_def Let_def)

lemma parseTokens_Cons:
  "parseTokens (t # ts) sd =
   parseTokens ts (parseToken t (case ts of [] \<Rightarrow> None | u # _ \<Rightarrow> Some u) sd)"
  by (cases ts) simp_all

lemma fold_parseStep_drop:
  "i \<le> length parts \<Longrightarrow>
   fold (parseStep parts) [i..<length parts] sd = parseTokens (drop i parts) sd"
proof (induction "length parts - i" arbitrary: i sd)
  case 0
  then show ?case by simp
next
  case (Suc n)
  then have lt: "i < length parts" by simp
  have ih: "fold (parseStep parts) [Suc i..<length parts] (parseStep parts i sd) =
      parseTokens (drop (Suc i) parts) (parseStep parts i sd)"
    using Suc.hyps(1) [of "Suc i" "parseStep parts i sd"] Suc.hyps(2) lt by simp
  have nxt: "(case drop (Suc i) parts of [] \<Rightarrow> None | u # _ \<Rightarrow> Some u) =
      (if Suc i < length parts then Some (parts ! Suc i) else None)"
    by (cases "Suc i < length parts") (simp_all add: Cons_nth_drop_Suc [symmetric])
  have "fold (parseStep parts) [i..<length parts] sd =
      fold (parseStep parts) [Suc i..<length parts] (parseStep parts i sd)"
    using lt by (simp add: upt_conv_Cons)
  also have "\<dots> = parseTokens (drop (Suc i) parts) (parseStep parts i sd)"
    by (rule ih)
  also have "\<dots> = parseTokens (parts ! i # drop (Suc i) parts) sd"
    by (simp only: parseTokens_Cons nxt parseStep_parseToken [OF lt])
  also have "\<dots> = parseTokens (drop i parts) sd"
    using lt by (simp add: Cons_nth_drop_Suc)
  finally show ?case .
qed

lemma parseLoop_parseTokens: "parseLoop parts sd = parseTokens parts sd"
  using fold_parseStep_drop [of 0 parts sd] by (simp add: parseLoop_def)

lemma value_field:
  assumes step: "\<And>t nx sd. g (parseToken t nx sd) =
      (if keyOf t = Some k then Some (f (valueOf t)) else g sd)"
  shows "g (parseTokens ts sd) =
      (case lastWithKey k ts of None \<Rightarrow> g sd | Some t \<Rightarrow> Some (f (valueOf t)))"
proof (induction ts arbitrary: sd)
  case Nil
  then show ?case by (simp add: lastWithKey_def)
next
  case (Cons t ts)
  show ?case
    by (simp add: parseTokens_Cons Cons.IH step lastWithKey_def find_snoc split: option.split)
qed

lemma status_field:
  assumes step: "\<And>t nx sd. g (parseToken t nx sd) =
      (case nx of
         None \<Rightarrow> g sd
       | Some n \<Rightarrow>
           if keyOf t = Some k \<and> \<not> js_includes n CHR '':'' then Some (js_trim n) else g sd)"
  shows "g (parseTokens ts sd) =
      (case statusAfter k ts of None \<Rightarrow> g sd | Some n \<Rightarrow> Some (js_trim n))"
proof (induction ts arbitrary: sd)
  case Nil
  then show ?case by (simp add: statusAfter_def)
next
  case (Cons t ts)
  show ?case
  proof (cases ts)
    case Nil
    then show ?thesis by (simp add: step statusAfter_def)
  next
    case (Cons u us)
    have z: "zip (t # ts) (tl (t # ts)) = (t, u) # zip ts (tl ts)"
      using Cons by simp
    show ?thesis
      unfolding parseTokens_Cons Cons.IH
      by (simp add: z statusAfter_def find_snoc step Cons split: option.split)
  qed
qed

lemma parseToken_moisture:
  "moisture (parseToken t nx sd) =
   (if keyOf t = Some ''Moisture'' then Some (parseInt (valueOf t)) else moisture sd)"
  by (simp add: parseToken_def keyOf_def valueOf_def Let_def)

lemma parseToken_light:
  "light (parseToken t nx sd) =
   (if keyOf t = Some ''Light'' then Some (parseInt (valueOf t)) else light sd)"
  by (simp add: parseToken_def keyOf_def valueOf_def Let_def)

lemma parseToken_water:
  "water (parseToken t nx sd) =
   (if keyOf t = Some ''Water'' then Some (parseInt (valueOf t)) else water sd)"
  by (simp add: parseToken_def keyOf_def valueOf_def Let_def)

lemma parseToken_temperature:
  "temperature (parseToken t nx sd) =
   (if keyOf t = Some ''Temp'' then Some (parseFloat (valueOf t)) else temperature sd)"
  by (simp add: parseToken_def keyOf_def valueOf_def Let_def)

lemma parseToken_humidity:
  "humidity (parseToken t nx sd) =
   (if keyOf t = Some ''Humid'' then Some (parseFloat (valueOf t)) else humidity sd)"
  by (simp add: parseToken_def keyOf_def valueOf_def Let_def)

lemma parseToken_servo:
  "servo (parseToken t nx sd) =
   (if keyOf t = Some ''Servo'' then Some (parseInt (valueOf t)) else servo sd)"
  by (simp add: parseToken_def keyOf_def valueOf_def Let_def)

lemma parseToken_moistureStatus:
  "moistureStatus (parseToken t nx sd) =
   (case nx of
      None \<Rightarrow> moistureStatus sd
    | Some n \<Rightarrow>
        if keyOf t = Some ''Moisture'' \<and> \<not> js_includes n CHR '':'' then Some (js_trim n)
        else moistureStatus sd)"
  by (simp add: parseToken_def keyOf_def Let_def split: option.split)

lemma parseToken_lightStatus:
  "lightStatus (parseToken t nx sd) =
   (case nx of
      None \<Rightarrow> lightStatus sd
    | Some n \<Rightarrow>
        if keyOf t = Some ''Light'' \<and> \<not> js_includes n CHR '':'' then Some (js_trim n)
        else lightStatus sd)"
  by (simp add: parseToken_def keyOf_def Let_def split: option.split)

lemma parseToken_waterStatus:
  "waterStatus (parseToken t nx sd) =
   (case nx of
      None \<Rightarrow> waterStatus sd
    | Some n \<Rightarrow>
        if keyOf t = Some ''Water'' \<and> \<not> js_includes n CHR '':'' then Some (js_trim n)
        else waterStatus sd)"
  by (simp add: parseToken_def keyOf_def Let_def split: option.split)

lemma keyOf_None: "(keyOf t = None) = (\<not> js_includes (js_trim t) CHR '':'')"
  by (simp add: keyOf_def)

lemma keyOf_Some:
  "(keyOf t = Some k) = (js_includes (js_trim t) CHR '':'' \<and> partKey (js_trim t) = k)"
  by (simp add: keyOf_def)

lemma parseToken_bare: "keyOf t = None \<Longrightarrow> parseToken t nx sd = sd"
  by (simp add: keyOf_None parseToken_def Let_def)

lemma parseToken_unknown:
  assumes "keyOf t = Some k"
    and "k \<notin> set [''Moisture'', ''Light'', ''Water'', ''Temp'', ''Humid'', ''Servo'']"
  shows "parseToken t nx sd = sd"
proof -
  from assms(1) have inc: "js_includes (js_trim t) CHR '':''" and key: "partKey (js_trim t) = k"
    by (simp_all add: keyOf_Some)
  from assms(2) have ne: "k \<noteq> ''Moisture''" "k \<noteq> ''Light''" "k \<noteq> ''Water''"
    "k \<noteq> ''Temp''" "k \<noteq> ''Humid''" "k \<noteq> ''Servo''"
    by simp_all
  show ?thesis
    by (simp only: parseToken_def Let_def inc key ne if_True if_False)
qed

lemma reset_fields [simp]:
  "moisture (resetSensorValues sd) = None"
  "moistureStatus (resetSensorValues sd) = None"
  "light (resetSensorValues sd) = None"
  "lightStatus (resetSensorValues sd) = None"
  "water (resetSensorValues sd) = None"
  "waterStatus (resetSensorValues sd) = None"
  "temperature (resetSensorValues sd) = None"
  "humidity (resetSensorValues sd) = None"
  "servo (resetSensorValues sd) = None"
  by (simp_all add: resetSensorValues_def)

lemma statusAfter_defined:
  "(statusAfter k parts \<noteq> None) =
   (\<exists>i. Suc i < length parts \<and> keyOf (parts ! i) = Some k \<and>
        \<not> js_includes (parts ! Suc i) CHR '':'')"
proof -
  have "(statusAfter k parts \<noteq> None) =
      (\<exists>p \<in> set (zip parts (tl parts)).
          keyOf (fst p) = Some k \<and> \<not> js_includes (snd p) CHR '':'')"
    unfolding Bex_def by (simp add: statusAfter_def find_None_iff) blast
  also have "\<dots> = (\<exists>i. Suc i < length parts \<and> keyOf (parts ! i) = Some k \<and>
        \<not> js_includes (parts ! Suc i) CHR '':'')"
  proof
    assume "\<exists>p \<in> set (zip parts (tl parts)).
          keyOf (fst p) = Some k \<and> \<not> js_includes (snd p) CHR '':''"
    then obtain a b where ab: "(a, b) \<in> set (zip parts (tl parts))"
      and P: "keyOf a = Some k" "\<not> js_includes b CHR '':''"
      by auto
    from ab obtain i where i: "i < length parts" "i < length (tl parts)"
      "a = parts ! i" "b = tl parts ! i"
      by (auto simp add: in_set_zip)
    then have "Suc i < length parts" "b = parts ! Suc i"
      by (simp_all add: nth_tl)
    with P i(3) show "\<exists>i. Suc i < length parts \<and> keyOf (parts ! i) = Some k \<and>
        \<not> js_includes (parts ! Suc i) CHR '':''"
      by blast
  next
    assume "\<exists>i. Suc i < length parts \<and> keyOf (parts ! i) = Some k \<and>
        \<not> js_includes (parts ! Suc i) CHR '':''"
    then obtain i where i: "Suc i < length parts" "keyOf (parts ! i) = Some k"
      "\<not> js_includes (parts ! Suc i) CHR '':''"
      by blast
    then have "i < length parts" "i < length (tl parts)" "tl parts ! i = parts ! Suc i"
      by (simp_all add: nth_tl)
    then have "(parts ! i, parts ! Suc i) \<in> set (zip parts (tl parts))"
      by (auto simp add: in_set_zip)
    with i show "\<exists>p \<in> set (zip parts (tl parts)).
          keyOf (fst p) = Some k \<and> \<not> js_includes (snd p) CHR '':''"
      by force
  qed
  finally show ?thesis .
qed

lemma notNumeric_parseInt: "notNumeric v \<Longrightarrow> parseInt v = NaN"
proof -
  assume nn: "notNumeric v"
  define S where "S = dropWhile isWhiteSpace v"
  define U where "U = (if S \<noteq> [] \<and> (hd S = CHR ''+'' \<or> hd S = CHR ''-'') then tl S else S)"
  have d0: "isRadixDigit 10 CHR ''0''"
    by (simp add: isRadixDigit_def digitValue_def)
  from nn have "case U of [] \<Rightarrow> True
      | c # _ \<Rightarrow> \<not> isRadixDigit 10 c \<and> c \<noteq> CHR ''.'' \<and> c \<noteq> CHR ''I''"
    unfolding notNumeric_def Let_def S_def U_def .
  then have U: "U = [] \<or> \<not> isRadixDigit 10 (hd U)"
    by (cases U) simp_all
  then have nohex: "take 2 U \<noteq> ''0x'' \<and> take 2 U \<noteq> ''0X''"
    using d0 by (cases U) auto
  from U have "takeWhile (isRadixDigit 10) U = []"
    by (cases U) auto
  with nohex show ?thesis
    by (simp add: parseInt_def parseIntMath_def Let_def S_def [symmetric] U_def [symmetric])
qed

lemma notNumeric_parseFloat: "notNumeric v \<Longrightarrow> parseFloat v = NaN"
proof -
  assume nn: "notNumeric v"
  define S where "S = dropWhile isWhiteSpace v"
  define U where "U = (if S \<noteq> [] \<and> (hd S = CHR ''+'' \<or> hd S = CHR ''-'') then tl S else S)"
  from nn have "case U of [] \<Rightarrow> True
      | c # _ \<Rightarrow> \<not> isRadixDigit 10 c \<and> c \<noteq> CHR ''.'' \<and> c \<noteq> CHR ''I''"
    unfolding notNumeric_def Let_def S_def U_def .
  then have U: "U = [] \<or> (\<not> isRadixDigit 10 (hd U) \<and> hd U \<noteq> CHR ''.'' \<and> hd U \<noteq> CHR ''I'')"
    by (cases U) simp_all
  then have noinf: "take 8 U \<noteq> ''Infinity''"
    by (cases U) auto
  from U have tw: "takeWhile (isRadixDigit 10) U = []"
    by (cases U) auto
  from U have dw: "dropWhile (isRadixDigit 10) U = U"
    by (cases U) auto
  from U have nodot: "(U \<noteq> [] \<and> hd U = CHR ''.'') = False"
    by auto
  show ?thesis
    using noinf
    by (simp add: parseFloat_def Let_def S_def [symmetric] U_def [symmetric] tw dw nodot)
qed

section \<open>Status attachment\<close>

lemma parseLoop_status:
  "moistureStatus (parseLoop parts (resetSensorValues sd)) =
     map_option js_trim (statusAfter ''Moisture'' parts)"
  "lightStatus (parseLoop parts (resetSensorValues sd)) =
     map_option js_trim (statusAfter ''Light'' parts)"
  "waterStatus (parseLoop parts (resetSensorValues sd)) =
     map_option js_trim (statusAfter ''Water'' parts)"
  unfolding parseLoop_parseTokens
  by (simp_all add: status_field [where g = moistureStatus, OF parseToken_moistureStatus]
      status_field [where g = lightStatus, OF parseToken_lightStatus]
      status_field [where g = waterStatus, OF parseToken_waterStatus]
      split: option.split)

lemma parseStep_bare:
  "i < length parts \<Longrightarrow> keyOf (parts ! i) = None \<Longrightarrow> parseStep parts i sd = sd"
  by (simp add: parseStep_parseToken parseToken_bare)

text \<open>
  Claim C3. For every line \<open>s\<close>, with \<open>parts\<close> its comma-split tokens: the status of
  Moisture, Light and Water after parsing is the trimmed token that follows the last
  token carrying that key and followed by a token without a colon; a status is present
  exactly when some token carrying the key is immediately followed by a token without a
  colon. A token without a colon changes nothing at its own position, so a bare word is
  only ever read as the successor of a key token.
\<close>

theorem status_attached_to_adjacent_token:
  "let parts = js_split CHR '','' s;
       sd' = parseLoop parts (resetSensorValues sd)
   in parseSensorData (JStr s) sd = Inr sd' \<and>
      moistureStatus sd' = map_option js_trim (statusAfter ''Moisture'' parts) \<and>
      lightStatus sd' = map_option js_trim (statusAfter ''Light'' parts) \<and>
      waterStatus sd' = map_option js_trim (statusAfter ''Water'' parts) \<and>
      (moistureStatus sd' \<noteq> None) =
        (\<exists>i. Suc i < length parts \<and> keyOf (parts ! i) = Some ''Moisture'' \<and>
             \<not> js_includes (parts ! Suc i) CHR '':'') \<and>
      (lightStatus sd' \<noteq> None) =
        (\<exists>i. Suc i < length parts \<and> keyOf (parts ! i) = Some ''Light'' \<and>
             \<not> js_includes (parts ! Suc i) CHR '':'') \<and>
      (waterStatus sd' \<noteq> None) =
        (\<exists>i. Suc i < length parts \<and> keyOf (parts ! i) = Some ''Water'' \<and>
             \<not> js_includes (parts ! Suc i) CHR '':'') \<and>
      (\<forall>i sd0. i < length parts \<and> keyOf (parts ! i) = None \<longrightarrow>
         parseStep parts i sd0 = sd0)"
proof -
  define parts where "parts = js_split CHR '','' s"
  define sd' where "sd' = parseLoop parts (resetSensorValues sd)"
  have run: "parseSensorData (JStr s) sd = Inr sd'"
    by (simp add: parseSensorData_def sd'_def parts_def)
  have st: "moistureStatus sd' = map_option js_trim (statusAfter ''Moisture'' parts)"
    "lightStatus sd' = map_option js_trim (statusAfter ''Light'' parts)"
    "waterStatus sd' = map_option js_trim (statusAfter ''Water'' parts)"
    by (simp_all only: sd'_def parseLoop_status)
  have ex: "(moistureStatus sd' \<noteq> None) =
        (\<exists>i. Suc i < length parts \<and> keyOf (parts ! i) = Some ''Moisture'' \<and>
             \<not> js_includes (parts ! Suc i) CHR '':'')"
      "(lightStatus sd' \<noteq> None) =
        (\<exists>i. Suc i < length parts \<and> keyOf (parts ! i) = Some ''Light'' \<and>
             \<not> js_includes (parts ! Suc i) CHR '':'')"
      "(waterStatus sd' \<noteq> None) =
        (\<exists>i. Suc i < length parts \<and> keyOf (parts ! i) = Some ''Water'' \<and>
             \<not> js_includes (parts ! Suc i) CHR '':'')"
    by (simp_all only: st option.map_disc_iff statusAfter_defined)
  have bare: "\<forall>i sd0. i < length parts \<and> keyOf (parts ! i) = None \<longrightarrow>
         parseStep parts i sd0 = sd0"
    by (simp add: parseStep_bare)
  from run st ex bare show ?thesis
    unfolding Let_def parts_def [symmetric] sd'_def [symmetric] by blast
qed

theorem status_attached_to_adjacent_token_witness:
  "moistureStatus (parseLoop (js_split CHR '','' ''DRY,Moisture:5,Temp:2,WET,Light:7, DIM '')
      (resetSensorValues (initialSensorData 0))) = None \<and>
   lightStatus (parseLoop (js_split CHR '','' ''DRY,Moisture:5,Temp:2,WET,Light:7, DIM '')
      (resetSensorValues (initialSensorData 0))) = Some ''DIM'' \<and>
   keyOf ''DRY'' = None \<and>
   parseStep (js_split CHR '','' ''DRY,Moisture:5,Temp:2,WET,Light:7, DIM '') 0
      (initialSensorData 0) = initialSensorData 0"
proof -
  note inst = status_attached_to_adjacent_token
    [of "''DRY,Moisture:5,Temp:2,WET,Light:7, DIM ''" "initialSensorData 0"]
  have k: "keyOf ''DRY'' = None"
    by (simp add: keyOf_def js_trim_def js_includes_def isWhiteSpace_def)
  have m: "statusAfter ''Moisture''
      (js_split CHR '','' ''DRY,Moisture:5,Temp:2,WET,Light:7, DIM '') = None"
    by (simp add: statusAfter_def keyOf_def partKey_def js_trim_def js_includes_def
        isWhiteSpace_def)
  have l: "statusAfter ''Light''
      (js_split CHR '','' ''DRY,Moisture:5,Temp:2,WET,Light:7, DIM '') = Some '' DIM ''"
    by (simp add: statusAfter_def keyOf_def partKey_def js_trim_def js_includes_def
        isWhiteSpace_def)
  have t: "js_trim '' DIM '' = ''DIM''"
    by (simp add: js_trim_def isWhiteSpace_def)
  have p0: "parseStep (js_split CHR '','' ''DRY,Moisture:5,Temp:2,WET,Light:7, DIM '') 0
      (initialSensorData 0) = initialSensorData 0"
    using inst k unfolding Let_def by simp
  from inst m l t k p0 show ?thesis
    unfolding Let_def by simp
qed

section \<open>A tolerant, total parser\<close>

lemma parseLoop_values:
  "moisture (parseLoop parts (resetSensorValues sd)) =
     map_option (\<lambda>t. parseInt (valueOf t)) (lastWithKey ''Moisture'' parts)"
  "light (parseLoop parts (resetSensorValues sd)) =
     map_option (\<lambda>t. parseInt (valueOf t)) (lastWithKey ''Light'' parts)"
  "water (parseLoop parts (resetSensorValues sd)) =
     map_option (\<lambda>t. parseInt (valueOf t)) (lastWithKey ''Water'' parts)"
  "temperature (parseLoop parts (resetSensorValues sd)) =
     map_option (\<lambda>t. parseFloat (valueOf t)) (lastWithKey ''Temp'' parts)"
  "humidity (parseLoop parts (resetSensorValues sd)) =
     map_option (\<lambda>t. parseFloat (valueOf t)) (lastWithKey ''Humid'' parts)"
  "servo (parseLoop parts (resetSensorValues sd)) =
     map_option (\<lambda>t. parseInt (valueOf t)) (lastWithKey ''Servo'' parts)"
  unfolding parseLoop_parseTokens
  by (simp_all add: value_field [where g = moisture, OF parseToken_moisture]
      value_field [where g = light, OF parseToken_light]
      value_field [where g = water, OF parseToken_water]
      value_field [where g = temperature, OF parseToken_temperature]
      value_field [where g = humidity, OF parseToken_humidity]
      value_field [where g = servo, OF parseToken_servo]
      split: option.split)

lemma parseStep_unknown:
  assumes "i < length parts"
    and "keyOf (parts ! i) = Some k"
    and "k \<notin> set [''Moisture'', ''Light'', ''Water'', ''Temp'', ''Humid'', ''Servo'']"
  shows "parseStep parts i sd = sd"
  using parseToken_unknown [OF assms(2,3)] assms(1)
  by (simp only: parseStep_parseToken)

text \<open>
  Claim C6. For every line \<open>s\<close> the parse returns a reading and throws nothing. Each
  numeric property of the result is decided by the last token that carries its key,
  whatever the other tokens are: it is the number \<^verbatim>\<open>parseInt\<close> (Moisture, Light,
  Water, Servo) or \<^verbatim>\<open>parseFloat\<close> (Temp, Humid) reads from that token's value, and
  absent when no token carries the key. A value with no number at its start is read as
  NaN by both. A token with an unknown key changes nothing.
\<close>

theorem parser_total_and_tolerant:
  "let parts = js_split CHR '','' s;
       sd' = parseLoop parts (resetSensorValues sd)
   in parseSensorData (JStr s) sd = Inr sd' \<and>
      moisture sd' = map_option (\<lambda>t. parseInt (valueOf t)) (lastWithKey ''Moisture'' parts) \<and>
      light sd' = map_option (\<lambda>t. parseInt (valueOf t)) (lastWithKey ''Light'' parts) \<and>
      water sd' = map_option (\<lambda>t. parseInt (valueOf t)) (lastWithKey ''Water'' parts) \<and>
      temperature sd' = map_option (\<lambda>t. parseFloat (valueOf t)) (lastWithKey ''Temp'' parts) \<and>
      humidity sd' = map_option (\<lambda>t. parseFloat (valueOf t)) (lastWithKey ''Humid'' parts) \<and>
      servo sd' = map_option (\<lambda>t. parseInt (valueOf t)) (lastWithKey ''Servo'' parts) \<and>
      (\<forall>v. notNumeric v \<longrightarrow> parseInt v = NaN \<and> parseFloat v = NaN) \<and>
      (\<forall>i k sd0. i < length parts \<and> keyOf (parts ! i) = Some k \<and>
          k \<notin> set [''Moisture'', ''Light'', ''Water'', ''Temp'', ''Humid'', ''Servo''] \<longrightarrow>
          parseStep parts i sd0 = sd0)"
proof -
  define parts where "parts = js_split CHR '','' s"
  define sd' where "sd' = parseLoop parts (resetSensorValues sd)"
  have run: "parseSensorData (JStr s) sd = Inr sd'"
    by (simp add: parseSensorData_def sd'_def parts_def)
  have vals:
    "moisture sd' = map_option (\<lambda>t. parseInt (valueOf t)) (lastWithKey ''Moisture'' parts)"
    "light sd' = map_option (\<lambda>t. parseInt (valueOf t)) (lastWithKey ''Light'' parts)"
    "water sd' = map_option (\<lambda>t. parseInt (valueOf t)) (lastWithKey ''Water'' parts)"
    "temperature sd' = map_option (\<lambda>t. parseFloat (valueOf t)) (lastWithKey ''Temp'' parts)"
    "humidity sd' = map_option (\<lambda>t. parseFloat (valueOf t)) (lastWithKey ''Humid'' parts)"
    "servo sd' = map_option (\<lambda>t. parseInt (valueOf t)) (lastWithKey ''Servo'' parts)"
    by (simp_all only: sd'_def parseLoop_values)
  have nan: "\<forall>v. notNumeric v \<longrightarrow> parseInt v = NaN \<and> parseFloat v = NaN"
    by (simp add: notNumeric_parseInt notNumeric_parseFloat)
  have unk: "\<forall>i k sd0. i < length parts \<and> keyOf (parts ! i) = Some k \<and>
          k \<notin> set [''Moisture'', ''Light'', ''Water'', ''Temp'', ''Humid'', ''Servo''] \<longrightarrow>
          parseStep parts i sd0 = sd0"
    using parseStep_unknown by blast
  from run vals nan unk show ?thesis
    unfolding Let_def parts_def [symmetric] sd'_def [symmetric] by blast
qed

theorem parser_total_and_tolerant_witness:
  "notNumeric ''abc'' \<and>
   moisture (parseLoop (js_split CHR '','' ''Moisture:abc,Foo:1,Temp:2.5'')
      (resetSensorValues (initialSensorData 0))) = Some NaN \<and>
   temperature (parseLoop (js_split CHR '','' ''Moisture:abc,Foo:1,Temp:2.5'')
      (resetSensorValues (initialSensorData 0))) = Some (Num (5 / 2)) \<and>
   keyOf ''Foo:1'' = Some ''Foo'' \<and>
   parseStep (js_split CHR '','' ''Moisture:abc,Foo:1,Temp:2.5'') 1 (initialSensorData 0) =
     initialSensorData 0"
proof -
  note inst = parser_total_and_tolerant
    [of "''Moisture:abc,Foo:1,Temp:2.5''" "initialSensorData 0"]
  have nn: "notNumeric ''abc''"
    by (simp add: notNumeric_def isWhiteSpace_def isRadixDigit_def digitValue_def)
  have k: "keyOf ''Foo:1'' = Some ''Foo''"
    by (simp add: keyOf_def partKey_def js_trim_def js_includes_def isWhiteSpace_def)
  have m: "lastWithKey ''Moisture'' (js_split CHR '','' ''Moisture:abc,Foo:1,Temp:2.5'') =
      Some ''Moisture:abc''"
    by (simp add: lastWithKey_def keyOf_def partKey_def js_trim_def js_includes_def
        isWhiteSpace_def)
  have t: "lastWithKey ''Temp'' (js_split CHR '','' ''Moisture:abc,Foo:1,Temp:2.5'') =
      Some ''Temp:2.5''"
    by (simp add: lastWithKey_def keyOf_def partKey_def js_trim_def js_includes_def
        isWhiteSpace_def)
  have vm: "valueOf ''Moisture:abc'' = ''abc''"
    by (simp add: valueOf_def partValue_def js_trim_def isWhiteSpace_def)
  have vt: "parseFloat (valueOf ''Temp:2.5'') = Num (5 / 2)"
    by (simp add: valueOf_def partValue_def js_trim_def parseFloat_def isWhiteSpace_def
        isRadixDigit_def digitValue_def digitsValue_def exponentPart_def decimalNumber_def binary64_eval)
  from inst nn vm have nan: "parseInt (valueOf ''Moisture:abc'') = NaN"
    unfolding Let_def by simp
  have p1: "parseStep (js_split CHR '','' ''Moisture:abc,Foo:1,Temp:2.5'') 1
      (initialSensorData 0) = initialSensorData 0"
    using inst k unfolding Let_def by simp
  from inst m t nan vt nn k p1 show ?thesis
    unfolding Let_def by simp
qed

section \<open>Lines built from key groups\<close>

lemma split_no_sep: "c \<notin> set t \<Longrightarrow> js_split c t = [t]"
  by (induction t) auto

lemma split_append_sep: "c \<notin> set t \<Longrightarrow> js_split c (t @ c # r) = t # js_split c r"
  by (induction t) auto

lemma split_joinComma:
  "ts \<noteq> [] \<Longrightarrow> list_all noComma ts \<Longrightarrow> js_split CHR '','' (joinComma ts) = ts"
proof (induction ts rule: joinComma.induct)
  case 1
  then show ?case by simp
next
  case (2 t)
  then show ?case by (simp add: noComma_def js_includes_def split_no_sep)
next
  case (3 t u ts)
  then show ?case by (simp add: noComma_def js_includes_def split_append_sep)
qed

lemma dropWhile_append_stop:
  "ys \<noteq> [] \<Longrightarrow> \<not> P (hd ys) \<Longrightarrow> dropWhile P (xs @ ys) = dropWhile P xs @ ys"
  by (induction xs) (auto simp add: neq_Nil_conv)

lemma js_trim_keyed:
  assumes "k \<noteq> []" and "\<not> isWhiteSpace (hd k)"
  shows "js_trim (k @ CHR '':'' # v) = k @ CHR '':'' # rev (dropWhile isWhiteSpace (rev v))"
proof -
  have colon: "\<not> isWhiteSpace CHR '':''"
    by (simp add: isWhiteSpace_def)
  from assms have front: "dropWhile isWhiteSpace (k @ CHR '':'' # v) = k @ CHR '':'' # v"
    by (cases k) simp_all
  have "dropWhile isWhiteSpace (rev v @ CHR '':'' # rev k) =
      dropWhile isWhiteSpace (rev v) @ CHR '':'' # rev k"
    using colon by (simp add: dropWhile_append_stop)
  then show ?thesis
    by (simp add: js_trim_def front)
qed

lemma keyed_token:
  assumes "k \<noteq> []" and "\<not> isWhiteSpace (hd k)" and "CHR '':'' \<notin> set k"
  shows "keyOf (k @ CHR '':'' # v) = Some k"
  using assms(3)
  by (simp add: keyOf_def js_trim_keyed [OF assms(1,2)] js_includes_def partKey_def
      split_append_sep)

lemma keyOf_recognised:
  "keyOf (keyToken ''Moisture'' v) = Some ''Moisture''"
  "keyOf (keyToken ''Light'' v) = Some ''Light''"
  "keyOf (keyToken ''Water'' v) = Some ''Water''"
  "keyOf (keyToken ''Temp'' v) = Some ''Temp''"
  "keyOf (keyToken ''Humid'' v) = Some ''Humid''"
  "keyOf (keyToken ''Servo'' v) = Some ''Servo''"
  unfolding keyToken_def
  by (rule keyed_token; simp add: isWhiteSpace_def)+

lemma set_js_trim: "set (js_trim u) \<subseteq> set u"
proof
  fix x
  assume "x \<in> set (js_trim u)"
  then have "x \<in> set (dropWhile isWhiteSpace (rev (dropWhile isWhiteSpace u)))"
    by (simp add: js_trim_def)
  then have "x \<in> set (rev (dropWhile isWhiteSpace u))"
    by (rule set_dropWhileD)
  then have "x \<in> set (dropWhile isWhiteSpace u)"
    by simp
  then show "x \<in> set u"
    by (rule set_dropWhileD)
qed

lemma keyOf_bare: "\<not> js_includes u CHR '':'' \<Longrightarrow> keyOf u = None"
  using set_js_trim [of u] by (auto simp add: keyOf_def js_includes_def)

lemma parseToken_with_status:
  assumes "\<not> js_includes n CHR '':''"
  shows
    "keyOf t = Some ''Moisture'' \<Longrightarrow> parseToken t (Some n) sd =
       sd\<lparr>moisture := Some (parseInt (valueOf t)), moistureStatus := Some (js_trim n)\<rparr>"
    "keyOf t = Some ''Light'' \<Longrightarrow> parseToken t (Some n) sd =
       sd\<lparr>light := Some (parseInt (valueOf t)), lightStatus := Some (js_trim n)\<rparr>"
    "keyOf t = Some ''Water'' \<Longrightarrow> parseToken t (Some n) sd =
       sd\<lparr>water := Some (parseInt (valueOf t)), waterStatus := Some (js_trim n)\<rparr>"
  using assms by (simp_all add: keyOf_Some parseToken_def valueOf_def Let_def)

lemma parseToken_plain:
  "keyOf t = Some ''Temp'' \<Longrightarrow>
     parseToken t nx sd = sd\<lparr>temperature := Some (parseFloat (valueOf t))\<rparr>"
  "keyOf t = Some ''Humid'' \<Longrightarrow>
     parseToken t nx sd = sd\<lparr>humidity := Some (parseFloat (valueOf t))\<rparr>"
  "keyOf t = Some ''Servo'' \<Longrightarrow>
     parseToken t nx sd = sd\<lparr>servo := Some (parseInt (valueOf t))\<rparr>"
  by (simp_all add: keyOf_Some parseToken_def valueOf_def Let_def)

lemma run_pair:
  "\<not> js_includes u CHR '':'' \<Longrightarrow>
   parseTokens (t # u # rest) sd = parseTokens rest (parseToken t (Some u) sd)"
  by (simp add: parseTokens_Cons [of u] parseToken_bare keyOf_bare)

lemma pair_effect:
  "\<not> js_includes u CHR '':'' \<Longrightarrow> parseTokens [t, u] sd = parseToken t (Some u) sd"
  using run_pair [of u t "[]" sd] by simp

lemma group_effect:
  "bareWord ms \<Longrightarrow> parseTokens [keyToken ''Moisture'' mv, ms] sd =
     sd\<lparr>moisture := Some (parseInt (valueOf (keyToken ''Moisture'' mv))),
        moistureStatus := Some (js_trim ms)\<rparr>"
  "bareWord ls \<Longrightarrow> parseTokens [keyToken ''Light'' lv, ls] sd =
     sd\<lparr>light := Some (parseInt (valueOf (keyToken ''Light'' lv))),
        lightStatus := Some (js_trim ls)\<rparr>"
  "bareWord ws \<Longrightarrow> parseTokens [keyToken ''Water'' wv, ws] sd =
     sd\<lparr>water := Some (parseInt (valueOf (keyToken ''Water'' wv))),
        waterStatus := Some (js_trim ws)\<rparr>"
  "parseTokens [keyToken ''Temp'' tv] sd =
     sd\<lparr>temperature := Some (parseFloat (valueOf (keyToken ''Temp'' tv)))\<rparr>"
  "parseTokens [keyToken ''Humid'' hv] sd =
     sd\<lparr>humidity := Some (parseFloat (valueOf (keyToken ''Humid'' hv)))\<rparr>"
  "parseTokens [keyToken ''Servo'' sv] sd =
     sd\<lparr>servo := Some (parseInt (valueOf (keyToken ''Servo'' sv)))\<rparr>"
  by (simp_all add: bareWord_def parseToken_bare keyOf_bare parseToken_with_status
      parseToken_plain keyOf_recognised)

lemma group_run:
  assumes "bareWord ms" and "bareWord ls" and "bareWord ws"
    and "g \<in> set (keyGroups mv ms lv ls wv ws tv hv sv)"
  shows "parseTokens (g @ rest) sd = parseTokens rest (parseTokens g sd)"
proof -
  from assms(4) consider
      "g = [keyToken ''Moisture'' mv, ms]" | "g = [keyToken ''Light'' lv, ls]"
    | "g = [keyToken ''Water'' wv, ws]" | "g = [keyToken ''Temp'' tv]"
    | "g = [keyToken ''Humid'' hv]" | "g = [keyToken ''Servo'' sv]"
    by (auto simp add: keyGroups_def)
  then show ?thesis
    using assms(1-3)
    by cases
      (simp_all add: bareWord_def parseTokens_Cons parseToken_bare keyOf_bare
        parseToken_plain keyOf_recognised)
qed

lemma concat_run:
  assumes "bareWord ms" and "bareWord ls" and "bareWord ws"
  shows "set gs \<subseteq> set (keyGroups mv ms lv ls wv ws tv hv sv) \<Longrightarrow>
    parseTokens (concat gs) sd = fold parseTokens gs sd"
proof (induction gs arbitrary: sd)
  case Nil
  then show ?case by simp
next
  case (Cons g gs)
  then have "g \<in> set (keyGroups mv ms lv ls wv ws tv hv sv)"
    by simp
  then have "parseTokens (g @ concat gs) sd = parseTokens (concat gs) (parseTokens g sd)"
    by (rule group_run [OF assms])
  with Cons show ?case by simp
qed

lemma groups_commute:
  assumes "bareWord ms" and "bareWord ls" and "bareWord ws"
    and "x \<in> set (keyGroups mv ms lv ls wv ws tv hv sv)"
    and "y \<in> set (keyGroups mv ms lv ls wv ws tv hv sv)"
  shows "parseTokens x \<circ> parseTokens y = parseTokens y \<circ> parseTokens x"
  using assms
  by (auto simp add: keyGroups_def fun_eq_iff group_effect simp del: parseTokens.simps)

lemma noComma_keyToken:
  "noComma v \<Longrightarrow> CHR '','' \<notin> set k \<Longrightarrow> noComma (keyToken k v)"
  by (simp add: noComma_def js_includes_def keyToken_def)

lemma fold_keyGroups:
  assumes "bareWord ms" and "bareWord ls" and "bareWord ws"
  shows "fold parseTokens (keyGroups mv ms lv ls wv ws tv hv sv) sd =
     sd\<lparr>moisture := Some (parseInt (valueOf (keyToken ''Moisture'' mv))),
        moistureStatus := Some (js_trim ms),
        light := Some (parseInt (valueOf (keyToken ''Light'' lv))),
        lightStatus := Some (js_trim ls),
        water := Some (parseInt (valueOf (keyToken ''Water'' wv))),
        waterStatus := Some (js_trim ws),
        temperature := Some (parseFloat (valueOf (keyToken ''Temp'' tv))),
        humidity := Some (parseFloat (valueOf (keyToken ''Humid'' hv))),
        servo := Some (parseInt (valueOf (keyToken ''Servo'' sv)))\<rparr>"
  using assms by (simp add: keyGroups_def group_effect del: parseTokens.simps)

text \<open>
  Claim C5. Take a line made of the six key groups in any order: the tokens
  \<open>Moisture:mv\<close>, \<open>Light:lv\<close>, \<open>Water:wv\<close> each followed by its status word, and
  \<open>Temp:tv\<close>, \<open>Humid:hv\<close>, \<open>Servo:sv\<close>, where no value or status contains a comma and no
  status contains a colon. Whatever the order of the groups, parsing the line gives the
  same reading: each number is read from its own token and each status is the trimmed
  status word of its own group.
\<close>

theorem parse_order_independent:
  assumes "noComma mv" and "bareWord ms" and "noComma lv" and "bareWord ls"
    and "noComma wv" and "bareWord ws" and "noComma tv" and "noComma hv" and "noComma sv"
    and "mset gs = mset (keyGroups mv ms lv ls wv ws tv hv sv)"
  shows "parseSensorData (JStr (joinComma (concat gs))) sd =
     Inr ((resetSensorValues sd)
       \<lparr>moisture := Some (parseInt (valueOf (keyToken ''Moisture'' mv))),
        moistureStatus := Some (js_trim ms),
        light := Some (parseInt (valueOf (keyToken ''Light'' lv))),
        lightStatus := Some (js_trim ls),
        water := Some (parseInt (valueOf (keyToken ''Water'' wv))),
        waterStatus := Some (js_trim ws),
        temperature := Some (parseFloat (valueOf (keyToken ''Temp'' tv))),
        humidity := Some (parseFloat (valueOf (keyToken ''Humid'' hv))),
        servo := Some (parseInt (valueOf (keyToken ''Servo'' sv)))\<rparr>)"
proof -
  let ?G = "keyGroups mv ms lv ls wv ws tv hv sv"
  note bare = assms(2) assms(4) assms(6)
  from assms(10) have same: "set gs = set ?G"
    by (rule mset_eq_setD)
  have tokens: "\<Union> (set ` set ?G) =
      {keyToken ''Moisture'' mv, ms, keyToken ''Light'' lv, ls, keyToken ''Water'' wv, ws,
       keyToken ''Temp'' tv, keyToken ''Humid'' hv, keyToken ''Servo'' sv}"
    by (auto simp add: keyGroups_def)
  have "\<forall>t \<in> \<Union> (set ` set ?G). noComma t"
    unfolding tokens using assms(1-9)
    by (simp add: noComma_keyToken) (simp add: bareWord_def noComma_def)
  then have nc: "list_all noComma (concat gs)"
    by (simp add: list_all_iff same)
  have "[keyToken ''Temp'' tv] \<in> set gs"
    unfolding same by (simp add: keyGroups_def)
  then have ne: "concat gs \<noteq> []"
    by auto
  have split: "js_split CHR '','' (joinComma (concat gs)) = concat gs"
    using ne nc by (rule split_joinComma)
  have comm: "\<And>x y. x \<in> set gs \<Longrightarrow> y \<in> set gs \<Longrightarrow>
      parseTokens x \<circ> parseTokens y = parseTokens y \<circ> parseTokens x"
    unfolding same by (rule groups_commute [OF bare])
  have "parseLoop (concat gs) (resetSensorValues sd) =
      parseTokens (concat gs) (resetSensorValues sd)"
    by (rule parseLoop_parseTokens)
  also have "\<dots> = fold parseTokens gs (resetSensorValues sd)"
    by (rule concat_run [OF bare]) (unfold same, rule subset_refl)
  also have "\<dots> = fold parseTokens ?G (resetSensorValues sd)"
    using fold_multiset_equiv [of gs parseTokens ?G, OF comm assms(10)] by simp
  finally have "parseLoop (concat gs) (resetSensorValues sd) =
      fold parseTokens ?G (resetSensorValues sd)" .
  then show ?thesis
    by (simp only: parseSensorData_def jsval.case split fold_keyGroups [OF bare])
qed

theorem parse_order_independent_witness:
  "noComma ''512'' \<and> bareWord ''MOIST'' \<and> noComma ''700'' \<and> bareWord ''BRIGHT'' \<and>
   noComma ''45'' \<and> bareWord ''MEDIUM'' \<and> noComma ''24.5'' \<and> noComma ''55'' \<and>
   noComma ''90'' \<and>
   mset [[keyToken ''Servo'' ''90''], [keyToken ''Temp'' ''24.5''],
         [keyToken ''Water'' ''45'', ''MEDIUM''], [keyToken ''Humid'' ''55''],
         [keyToken ''Moisture'' ''512'', ''MOIST''], [keyToken ''Light'' ''700'', ''BRIGHT'']] =
   mset (keyGroups ''512'' ''MOIST'' ''700'' ''BRIGHT'' ''45'' ''MEDIUM'' ''24.5'' ''55'' ''90'') \<and>
   parseSensorData
     (JStr ''Servo:90,Temp:24.5,Water:45,MEDIUM,Humid:55,Moisture:512,MOIST,Light:700,BRIGHT'')
     (initialSensorData 0) =
   Inr \<lparr>timestamp = 0, moisture = Some (Num 512), moistureStatus = Some ''MOIST'',
        light = Some (Num 700), lightStatus = Some ''BRIGHT'', water = Some (Num 45),
        waterStatus = Some ''MEDIUM'', temperature = Some (Num (49 / 2)),
        humidity = Some (Num 55), servo = Some (Num 90), raw = JStr [],
        requestedServoPosition = JUndefined\<rparr>"
proof -
  have wf: "noComma ''512''" "bareWord ''MOIST''" "noComma ''700''" "bareWord ''BRIGHT''"
    "noComma ''45''" "bareWord ''MEDIUM''" "noComma ''24.5''" "noComma ''55''" "noComma ''90''"
    by (simp_all add: noComma_def bareWord_def js_includes_def)
  have perm: "mset [[keyToken ''Servo'' ''90''], [keyToken ''Temp'' ''24.5''],
         [keyToken ''Water'' ''45'', ''MEDIUM''], [keyToken ''Humid'' ''55''],
         [keyToken ''Moisture'' ''512'', ''MOIST''], [keyToken ''Light'' ''700'', ''BRIGHT'']] =
      mset (keyGroups ''512'' ''MOIST'' ''700'' ''BRIGHT'' ''45'' ''MEDIUM'' ''24.5'' ''55'' ''90'')"
    by (simp add: keyGroups_def add_mset_commute)
  have line: "joinComma (concat [[keyToken ''Servo'' ''90''], [keyToken ''Temp'' ''24.5''],
         [keyToken ''Water'' ''45'', ''MEDIUM''], [keyToken ''Humid'' ''55''],
         [keyToken ''Moisture'' ''512'', ''MOIST''], [keyToken ''Light'' ''700'', ''BRIGHT'']]) =
      ''Servo:90,Temp:24.5,Water:45,MEDIUM,Humid:55,Moisture:512,MOIST,Light:700,BRIGHT''"
    by (simp add: keyToken_def)
  have ints: "parseInt (valueOf (keyToken ''Moisture'' ''512'')) = Num 512"
    "parseInt (valueOf (keyToken ''Light'' ''700'')) = Num 700"
    "parseInt (valueOf (keyToken ''Water'' ''45'')) = Num 45"
    "parseInt (valueOf (keyToken ''Servo'' ''90'')) = Num 90"
    by (simp_all add: keyToken_def valueOf_def partValue_def js_trim_def isWhiteSpace_def
        parseInt_def parseIntMath_def isRadixDigit_def digitValue_def digitsValue_def
        binary64_eval)
  have floats: "parseFloat (valueOf (keyToken ''Temp'' ''24.5'')) = Num (49 / 2)"
    "parseFloat (valueOf (keyToken ''Humid'' ''55'')) = Num 55"
    by (simp_all add: keyToken_def valueOf_def partValue_def js_trim_def isWhiteSpace_def
        parseFloat_def isRadixDigit_def digitValue_def digitsValue_def exponentPart_def
        decimalNumber_def binary64_eval)
  have trims: "js_trim ''MOIST'' = ''MOIST''" "js_trim ''BRIGHT'' = ''BRIGHT''"
    "js_trim ''MEDIUM'' = ''MEDIUM''"
    by (simp_all add: js_trim_def isWhiteSpace_def)
  have "parseSensorData
     (JStr ''Servo:90,Temp:24.5,Water:45,MEDIUM,Humid:55,Moisture:512,MOIST,Light:700,BRIGHT'')
     (initialSensorData 0) =
   Inr \<lparr>timestamp = 0, moisture = Some (Num 512), moistureStatus = Some ''MOIST'',
        light = Some (Num 700), lightStatus = Some ''BRIGHT'', water = Some (Num 45),
        waterStatus = Some ''MEDIUM'', temperature = Some (Num (49 / 2)),
        humidity = Some (Num 55), servo = Some (Num 90), raw = JStr [],
        requestedServoPosition = JUndefined\<rparr>"
    using parse_order_independent [OF wf perm, of "initialSensorData 0"]
    unfolding line ints floats trims
    by (simp add: resetSensorValues_def initialSensorData_def)
  with wf perm show ?thesis by blast
qed

section \<open>Pages of the history and of the logs\<close>

lemma queryInt_falsy:
  "parseIntMath t = None \<or> parseIntMath t = Some 0 \<Longrightarrow> queryInt (Some t) d = d"
  by (auto simp add: queryInt_def)

lemma parseIntMath_undefined: "parseIntMath ''undefined'' = None"
  by (simp add: parseIntMath_def isWhiteSpace_def isRadixDigit_def digitValue_def)

lemma queryInt_missing: "queryInt None d = d"
  by (simp add: queryInt_def parseIntMath_undefined)

lemma queryInt_number:
  "parseIntMath t = Some n \<Longrightarrow> n \<noteq> 0 \<Longrightarrow> queryInt (Some t) d = n"
  by (simp add: queryInt_def)

lemma findSorted_bounded:
  "queryOk env \<Longrightarrow> 0 < limit \<Longrightarrow> 0 \<le> skip \<Longrightarrow>
   findSorted env ts limit skip docs =
     Inr (take (nat limit) (drop (nat skip) (newestFirst ts docs)))"
  by (simp add: findSorted_def mongoLimit_def)

lemma newestFirst_sorted: "sorted_wrt (\<ge>) (map ts (newestFirst ts docs))"
  by (simp add: newestFirst_def rev_map [symmetric] sorted_wrt_rev)

lemma newestFirst_mset: "mset (newestFirst ts docs) = mset docs"
  by (simp add: newestFirst_def)

lemma newestFirst_increasing:
  "sorted_wrt (<) (map ts docs) \<Longrightarrow> newestFirst ts docs = rev docs"
  by (simp add: newestFirst_def sort_key_id_if_sorted strict_sorted_imp_sorted)

lemma page_sorted:
  "sorted_wrt (\<ge>) (map ts (take n (drop k (newestFirst ts docs))))"
  using newestFirst_sorted [of ts docs]
  by (simp add: take_map [symmetric] drop_map [symmetric] sorted_wrt_take sorted_wrt_drop)

lemma two_newest_of_five:
  assumes "length docs = 5"
  shows "take 2 (rev docs) = [docs ! 4, docs ! 3]"
proof -
  from assms obtain a b c d e where "docs = [a, b, c, d, e]"
    by (auto simp add: length_Suc_conv eval_nat_numeral)
  then show ?thesis by simp
qed

text \<open>
  Claim C8, as stated, at limit 0: \<^verbatim>\<open>GET /data/history?limit=0&skip=0\<close> on a log of
  one reading returns that reading, one record where the limit given is 0.
\<close>

theorem history_limit_zero_counterexample:
  "fst (getDataHistory allOk 1 (Some ''0'') (Some ''0'')
         ((initialServer 0)\<lparr>sensorCollection := [sensorDoc (initialSensorData 0)]\<rparr>)) =
     Response 200 (Readings [sensorDoc (initialSensorData 0)]) \<and>
   \<not> length [sensorDoc (initialSensorData 0)] \<le> (0::nat)"
proof -
  have z: "parseIntMath ''0'' = Some 0"
    by (simp add: parseIntMath_def isWhiteSpace_def isRadixDigit_def digitValue_def
        digitsValue_def)
  show ?thesis
    by (simp add: getDataHistory_def getHistoricalData_def queryInt_def z findSorted_def
        mongoLimit_def newestFirst_def allOk_def)
qed

text \<open>
  Claim C8, amended. While the database answers, for every state of the log, every
  limit of at least 1 and every skip of at least 0, \<open>history(limit, skip)\<close> is the page
  of at most \<open>limit\<close> stored readings that follows the first \<open>skip\<close> readings in the
  newest-first order of the whole log; a missing limit is 100 and a missing skip is 0.
  The newest-first order is a rearrangement of the log with descending timestamps. An
  empty log gives the empty page. Over a log of five readings ingested at increasing
  instants, limit 2 and skip 0 give the fifth and the fourth. The handler answers with
  that page for a numeric limit of at least 1 and changes no state.
\<close>

theorem history_page_newest_first:
  assumes "queryOk env" and "0 < limit" and "0 \<le> skip"
  shows
    "let log = sensorCollection srv;
         page = take (nat limit) (drop (nat skip) (newestFirst doc_timestamp log))
     in getHistoricalData env (Some limit) (Some skip) srv = Inr page \<and>
        int (length page) \<le> limit \<and>
        sorted_wrt (\<ge>) (map doc_timestamp page) \<and>
        sorted_wrt (\<ge>) (map doc_timestamp (newestFirst doc_timestamp log)) \<and>
        mset (newestFirst doc_timestamp log) = mset log \<and>
        getHistoricalData env None None srv = Inr (take 100 (newestFirst doc_timestamp log)) \<and>
        (log = [] \<longrightarrow> page = []) \<and>
        (sorted_wrt (<) (map doc_timestamp log) \<and> length log = 5 \<longrightarrow>
           getHistoricalData env (Some 2) (Some 0) srv = Inr [log ! 4, log ! 3]) \<and>
        (parseIntMath l = Some limit \<and> parseIntMath k = Some skip \<longrightarrow>
           getDataHistory env now (Some l) (Some k) srv = (Response 200 (Readings page), srv))"
proof -
  define log where "log = sensorCollection srv"
  define page where "page = take (nat limit) (drop (nat skip) (newestFirst doc_timestamp log))"
  have run: "getHistoricalData env (Some limit) (Some skip) srv = Inr page"
    using assms by (simp add: getHistoricalData_def findSorted_bounded page_def log_def)
  have len: "int (length page) \<le> limit"
    using assms(2) by (simp add: page_def)
  have srt: "sorted_wrt (\<ge>) (map doc_timestamp page)"
    unfolding page_def by (rule page_sorted)
  have all_srt: "sorted_wrt (\<ge>) (map doc_timestamp (newestFirst doc_timestamp log))"
    by (rule newestFirst_sorted)
  have perm: "mset (newestFirst doc_timestamp log) = mset log"
    by (rule newestFirst_mset)
  have dflt: "getHistoricalData env None None srv =
      Inr (take 100 (newestFirst doc_timestamp log))"
    using assms(1) by (simp add: getHistoricalData_def findSorted_bounded log_def)
  have empty: "log = [] \<longrightarrow> page = []"
    by (simp add: page_def newestFirst_def)
  have five: "sorted_wrt (<) (map doc_timestamp log) \<and> length log = 5 \<longrightarrow>
      getHistoricalData env (Some 2) (Some 0) srv = Inr [log ! 4, log ! 3]"
  proof
    assume h: "sorted_wrt (<) (map doc_timestamp log) \<and> length log = 5"
    then have "newestFirst doc_timestamp log = rev log"
      by (simp add: newestFirst_increasing)
    moreover from h have "take 2 (rev log) = [log ! 4, log ! 3]"
      by (simp add: two_newest_of_five)
    ultimately show "getHistoricalData env (Some 2) (Some 0) srv = Inr [log ! 4, log ! 3]"
      using assms(1) by (simp add: getHistoricalData_def findSorted_bounded log_def)
  qed
  have handler: "parseIntMath l = Some limit \<and> parseIntMath k = Some skip \<longrightarrow>
      getDataHistory env now (Some l) (Some k) srv = (Response 200 (Readings page), srv)"
  proof
    assume h: "parseIntMath l = Some limit \<and> parseIntMath k = Some skip"
    with assms(2) have "queryInt (Some l) 100 = limit" and "queryInt (Some k) 0 = skip"
      by (simp_all add: queryInt_def)
    then show "getDataHistory env now (Some l) (Some k) srv =
        (Response 200 (Readings page), srv)"
      by (simp add: getDataHistory_def run)
  qed
  from run len srt all_srt perm dflt empty five handler show ?thesis
    unfolding Let_def log_def [symmetric] page_def [symmetric] by blast
qed

theorem history_page_newest_first_witness:
  "queryOk allOk \<and> (0::int) < 2 \<and> (0::int) \<le> 0 \<and>
   getHistoricalData allOk (Some 2) (Some 0)
     ((initialServer 0)\<lparr>sensorCollection :=
        map (\<lambda>t. sensorDoc (initialSensorData t)) [1, 2, 3, 4, 5]\<rparr>) =
   Inr [sensorDoc (initialSensorData 5), sensorDoc (initialSensorData 4)]"
proof -
  let ?srv = "(initialServer 0)\<lparr>sensorCollection :=
        map (\<lambda>t. sensorDoc (initialSensorData t)) [1, 2, 3, 4, 5]\<rparr>"
  have ok: "queryOk allOk"
    by (simp add: allOk_def)
  have lim: "(0::int) < 2" and sk: "(0::int) \<le> 0"
    by simp_all
  note inst = history_page_newest_first [OF ok lim sk, of ?srv, unfolded Let_def]
  have inc: "sorted_wrt (<) (map doc_timestamp (sensorCollection ?srv)) \<and>
      length (sensorCollection ?srv) = 5"
    by (simp add: sensorDoc_def initialSensorData_def)
  from inst have "sorted_wrt (<) (map doc_timestamp (sensorCollection ?srv)) \<and>
      length (sensorCollection ?srv) = 5 \<longrightarrow>
      getHistoricalData allOk (Some 2) (Some 0) ?srv =
        Inr [sensorCollection ?srv ! 4, sensorCollection ?srv ! 3]"
    by blast
  with inc have "getHistoricalData allOk (Some 2) (Some 0) ?srv =
        Inr [sensorCollection ?srv ! 4, sensorCollection ?srv ! 3]"
    by blast
  then show ?thesis using ok by simp
qed

text \<open>
  Claim C10. On \<^verbatim>\<open>GET /data/history\<close> and \<^verbatim>\<open>GET /logs\<close>, a limit that
  \<^verbatim>\<open>parseInt\<close> reads as NaN or as 0 becomes 100 and such a skip becomes 0: the request
  is handled as if that parameter were missing, whatever the other parameters are. So,
  while the database answers and the skip is not negative, a request for the history
  with such a limit returns the 100 newest readings after the skipped ones, all of them
  when there are fewer, and a request for the logs with such a limit returns the 100
  newest of the log records its filters select, after the skipped ones.
\<close>

theorem falsy_limit_and_skip_are_defaults:
  assumes "parseIntMath l = None \<or> parseIntMath l = Some 0"
  shows
    "queryInt (Some l) 100 = 100 \<and> queryInt (Some l) 0 = 0 \<and>
     getDataHistory env now (Some l) qSkip srv = getDataHistory env now None qSkip srv \<and>
     getDataHistory env now qLimit (Some l) srv = getDataHistory env now qLimit None srv \<and>
     getLogsHandler env newDate qType (Some l) qSkip qStart qEnd srv =
       getLogsHandler env newDate qType None qSkip qStart qEnd srv \<and>
     getLogsHandler env newDate qType qLimit (Some l) qStart qEnd srv =
       getLogsHandler env newDate qType qLimit None qStart qEnd srv \<and>
     (queryOk env \<and> 0 \<le> queryInt qSkip 0 \<longrightarrow>
        getDataHistory env now (Some l) qSkip srv =
          (Response 200
             (Readings (take 100 (drop (nat (queryInt qSkip 0))
                (newestFirst doc_timestamp (sensorCollection srv))))), srv) \<and>
        length (take 100 (drop (nat (queryInt qSkip 0))
                (newestFirst doc_timestamp (sensorCollection srv)))) =
          min 100 (length (sensorCollection srv) - nat (queryInt qSkip 0))) \<and>
     (queryOk env \<and> 0 \<le> queryInt qSkip 0 \<and>
      dateOf newDate qStart = Some lo \<and> dateOf newDate qEnd = Some hi \<longrightarrow>
        getLogsHandler env newDate qType (Some l) qSkip qStart qEnd srv =
          (Response 200
             (Logs (take 100 (drop (nat (queryInt qSkip 0))
                (newestFirst log_timestamp
                   (filter (\<lambda>r. typeMatches qType r \<and> inRange lo hi r)
                      (logCollection srv)))))), srv))"
proof -
  have ql: "queryInt (Some l) 100 = 100" and qk: "queryInt (Some l) 0 = 0"
    using assms by (simp_all add: queryInt_falsy)
  have hist_limit: "getDataHistory env now (Some l) qSkip srv =
      getDataHistory env now None qSkip srv"
    by (simp add: getDataHistory_def ql queryInt_missing)
  have hist_skip: "getDataHistory env now qLimit (Some l) srv =
      getDataHistory env now qLimit None srv"
    by (simp add: getDataHistory_def qk queryInt_missing)
  have logs_limit: "getLogsHandler env newDate qType (Some l) qSkip qStart qEnd srv =
       getLogsHandler env newDate qType None qSkip qStart qEnd srv"
    by (simp add: getLogsHandler_def ql queryInt_missing)
  have logs_skip: "getLogsHandler env newDate qType qLimit (Some l) qStart qEnd srv =
       getLogsHandler env newDate qType qLimit None qStart qEnd srv"
    by (simp add: getLogsHandler_def qk queryInt_missing)
  have hist: "queryOk env \<and> 0 \<le> queryInt qSkip 0 \<longrightarrow>
        getDataHistory env now (Some l) qSkip srv =
          (Response 200
             (Readings (take 100 (drop (nat (queryInt qSkip 0))
                (newestFirst doc_timestamp (sensorCollection srv))))), srv) \<and>
        length (take 100 (drop (nat (queryInt qSkip 0))
                (newestFirst doc_timestamp (sensorCollection srv)))) =
          min 100 (length (sensorCollection srv) - nat (queryInt qSkip 0))"
    by (simp add: getDataHistory_def ql getHistoricalData_def findSorted_bounded
        newestFirst_def min.commute)
  have logs: "queryOk env \<and> 0 \<le> queryInt qSkip 0 \<and>
      dateOf newDate qStart = Some lo \<and> dateOf newDate qEnd = Some hi \<longrightarrow>
        getLogsHandler env newDate qType (Some l) qSkip qStart qEnd srv =
          (Response 200
             (Logs (take 100 (drop (nat (queryInt qSkip 0))
                (newestFirst log_timestamp
                   (filter (\<lambda>r. typeMatches qType r \<and> inRange lo hi r)
                      (logCollection srv)))))), srv)"
    by (simp add: getLogsHandler_def ql getLogs_def findSorted_bounded)
  from ql qk hist_limit hist_skip logs_limit logs_skip hist logs show ?thesis
    by blast
qed

theorem falsy_limit_and_skip_are_defaults_witness:
  "(parseIntMath ''0'' = None \<or> parseIntMath ''0'' = Some 0) \<and>
   getDataHistory allOk 9 (Some ''0'') None
     ((initialServer 0)\<lparr>sensorCollection :=
        [sensorDoc (initialSensorData 1), sensorDoc (initialSensorData 2)]\<rparr>) =
   (Response 200 (Readings [sensorDoc (initialSensorData 2), sensorDoc (initialSensorData 1)]),
    (initialServer 0)\<lparr>sensorCollection :=
        [sensorDoc (initialSensorData 1), sensorDoc (initialSensorData 2)]\<rparr>) \<and>
   getDataHistory allOk 9 (Some ''0'') (Some ''1'')
     ((initialServer 0)\<lparr>sensorCollection :=
        [sensorDoc (initialSensorData 1), sensorDoc (initialSensorData 2)]\<rparr>) =
   (Response 200 (Readings [sensorDoc (initialSensorData 1)]),
    (initialServer 0)\<lparr>sensorCollection :=
        [sensorDoc (initialSensorData 1), sensorDoc (initialSensorData 2)]\<rparr>)"
proof -
  let ?srv = "(initialServer 0)\<lparr>sensorCollection :=
        [sensorDoc (initialSensorData 1), sensorDoc (initialSensorData 2)]\<rparr>"
  have z: "parseIntMath ''0'' = None \<or> parseIntMath ''0'' = Some 0"
    by (simp add: parseIntMath_def isWhiteSpace_def isRadixDigit_def digitValue_def
        digitsValue_def)
  have one: "parseIntMath ''1'' = Some 1"
    by (simp add: parseIntMath_def isWhiteSpace_def isRadixDigit_def digitValue_def
        digitsValue_def)
  have ok: "queryOk allOk"
    by (simp add: allOk_def)
  have skip0: "queryInt None 0 = 0"
    by (rule queryInt_missing)
  have skip1: "queryInt (Some ''1'') 0 = 1"
    by (simp add: queryInt_def one)
  have order: "newestFirst doc_timestamp (sensorCollection ?srv) =
      [sensorDoc (initialSensorData 2), sensorDoc (initialSensorData 1)]"
    by (simp add: newestFirst_def sensorDoc_def initialSensorData_def)
  have n0: "0 \<le> queryInt None 0" and n1: "0 \<le> queryInt (Some ''1'') 0"
    by (simp_all add: skip0 skip1)
  from falsy_limit_and_skip_are_defaults [OF z, of allOk 9 None ?srv] ok n0
  have a: "getDataHistory allOk 9 (Some ''0'') None ?srv =
      (Response 200 (Readings (take 100 (drop (nat (queryInt None 0))
         (newestFirst doc_timestamp (sensorCollection ?srv))))), ?srv)"
    by blast
  from falsy_limit_and_skip_are_defaults [OF z, of allOk 9 "Some ''1''" ?srv] ok n1
  have b: "getDataHistory allOk 9 (Some ''0'') (Some ''1'') ?srv =
      (Response 200 (Readings (take 100 (drop (nat (queryInt (Some ''1'') 0))
         (newestFirst doc_timestamp (sensorCollection ?srv))))), ?srv)"
    by blast
  show ?thesis
    using z by (simp only: a b order skip0 skip1) simp
qed

section \<open>Further facts about ingestion\<close>

text \<open>
  A body whose \<open>data\<close> the handler cannot write into its first message is answered
  with status 500; neither the object in memory nor a sink other than the log of errors
  and the console is touched.
\<close>

lemma postData_throws:
  "toStringThrows rawData \<Longrightarrow>
   fst (postData env now (Some rawData) srv) = Response 500 (ErrorStatus TypeError) \<and>
   sensorData (snd (postData env now (Some rawData) srv)) = sensorData srv \<and>
   sensorLogFile (snd (postData env now (Some rawData) srv)) = sensorLogFile srv \<and>
   sensorCollection (snd (postData env now (Some rawData) srv)) = sensorCollection srv"
  by (simp add: postData_def dataRequestFailed_def)

lemma postData_throws_example:
  "fst (postData allOk 1 (Some (JObj [(''toString'', JNum (Num 1))])) (initialServer 0)) =
     Response 500 (ErrorStatus TypeError)"
  by (simp add: postData_def dataRequestFailed_def)

text \<open>
  A reading with a sensor value NaN is refused by the schema: the document is not
  stored and no sensor log record is written.
\<close>

lemma nan_reading_not_stored:
  "sensorCollection (snd (postData allOk 1 (Some (JStr ''Moisture:abc'')) (initialServer 0))) = [] \<and>
   logCollection (snd (postData allOk 1 (Some (JStr ''Moisture:abc'')) (initialServer 0))) = [] \<and>
   consoleErrors (snd (postData allOk 1 (Some (JStr ''Moisture:abc'')) (initialServer 0))) =
     [''Error saving to MongoDB:'']"
  by (simp add: postData_def parseSensorData_def resetSensorValues_def saveSensorData_def
      schemaAccepts_def consoleError_def Let_def allOk_def initialServer_def
      initialSensorData_def parse_eval)

text \<open>The example line of the source comment.\<close>

lemma parse_example_line:
  "parseSensorData
     (JStr ''Moisture:1234,DRY,Light:3456,BRIGHT,Water:789,MEDIUM,Temp:25.0,Humid:60.0,Servo:90'')
     (initialSensorData 0) =
   Inr \<lparr>timestamp = 0, moisture = Some (Num 1234), moistureStatus = Some ''DRY'',
        light = Some (Num 3456), lightStatus = Some ''BRIGHT'', water = Some (Num 789),
        waterStatus = Some ''MEDIUM'', temperature = Some (Num 25),
        humidity = Some (Num 60), servo = Some (Num 90), raw = JStr [],
        requestedServoPosition = JUndefined\<rparr>"
  by (simp add: parseSensorData_def resetSensorValues_def initialSensorData_def parse_eval)

text \<open>The number parsers read a numeric prefix and ignore what follows it.\<close>

lemma parseInt_prefix: "parseInt ''12abc'' = Num 12" "parseInt ''12.7'' = Num 12"
  by (simp_all add: parse_eval)

text \<open>The number parsers round to the nearest binary64 value, ties to even.\<close>

lemma parse_rounds:
  "parseFloat ''0.1'' = Num (3602879701896397 / 36028797018963968)"
  "parseInt ''9007199254740993'' = Num 9007199254740992"
  "parseInt ''9007199254740995'' = Num 9007199254740996"
  by (simp_all add: parse_eval)

end
